theory Spec2Isabelle
  imports Complex_Main
begin

section \<open>Python values, errors and arrays\<close>

text \<open>
  The class \<open>SpaceTimeVariogram\<close> of \<open>skgstat/SpaceTimeVariogram.py\<close> is embedded
  as a record of its attributes; every method takes the instance and returns the
  outcome (an exception or a value) together with the instance as the call left it,
  so that a mutation made before a \<open>raise\<close> stays visible.
\<close>

datatype error = ValueError | AttributeError | TypeError | IndexError | NotImplementedError

text \<open>A float cell: \<open>np.nan\<close> or a number (idealised as a real).\<close>

datatype num = NaN | Num real

text \<open>A function object: its \<open>__name__\<close> and what a call returns.\<close>

datatype estimator = Estimator (fname: string) (call: "num list \<Rightarrow> num")

text \<open>The arguments a caller may hand to a setter.\<close>

datatype pyobj = PyNone | PyInt int | PyFloat real | PyStr string
  | PyList "real list" | PyFun estimator

text \<open>
  What an attribute access on a string yields: \<open>s.lower()\<close> is a string,
  \<open>s.lower\<close> without the call is the bound method object.
\<close>

datatype pyattr = AttrStr string | AttrMethod string string

datatype dtype = Float64 | Int64 | ObjectDtype

record 'a ndarray =
  dtype :: dtype
  shape :: "nat list"
  data :: "'a list"

text \<open>The two-dimensional float array \<open>_diff\<close>, row by row.\<close>

record matrix =
  nrows :: nat
  ncols :: nat
  cells :: "num list list"

datatype binfunc = EvenWidthLags | UniformCountLags

text \<open>
  The collaborators that are not part of the class: the metrics \<open>scipy\<close>'s
  \<open>pdist\<close> knows by name, the functions of the modules \<open>skgstat.binning\<close> and
  \<open>skgstat.estimators\<close>, and the machine arithmetic of \<open>numpy\<close>:
  \<open>subtract dt a b\<close> is the difference \<open>a - b\<close> of two scalars of an array of dtype
  \<open>dt\<close> (rounded for \<open>float64\<close>, wrapping for \<open>int64\<close>) as it is stored in a float
  array. They are parameters of the model.
\<close>

record lib =
  metric :: "string \<Rightarrow> (real list \<Rightarrow> real list \<Rightarrow> real) option"
  subtract :: "dtype \<Rightarrow> real \<Rightarrow> real \<Rightarrow> num"
  even_width_lags :: "real list \<Rightarrow> pyobj \<Rightarrow> num option \<Rightarrow> error + real list"
  uniform_count_lags :: "real list \<Rightarrow> pyobj \<Rightarrow> num option \<Rightarrow> error + real list"
  matheron :: "num list \<Rightarrow> num"
  cressie :: "num list \<Rightarrow> num"
  dowd :: "num list \<Rightarrow> num"
  genton :: "num list \<Rightarrow> num"
  minmax :: "num list \<Rightarrow> num"
  percentile :: "num list \<Rightarrow> num"
  entropy :: "num list \<Rightarrow> num"

record stv =
  u_X :: "real list list"
  u_diff :: "matrix option"
  verbose :: bool
  cov :: pyobj
  cof :: pyobj
  u_values :: "real ndarray option"
  u_xdist :: "real list option"
  u_tdist :: "real list option"
  u_xdist_func :: "string option"
  u_tdist_func :: "string option"
  u_x_lags :: pyobj
  u_t_lags :: pyobj
  u_maxlag :: "num option"
  u_estimator :: "estimator option"
  u_xbin_func :: "binfunc option"
  u_xgroups :: "int list option"
  u_xbins :: "real list option"
  u_tbin_func :: "binfunc option"
  u_tgroups :: "int list option"
  u_tbins :: "real list option"

subsection \<open>Sequencing\<close>

definition bindE ::
  "('s \<Rightarrow> (error + 'a) \<times> 's) \<Rightarrow> ('a \<Rightarrow> 's \<Rightarrow> (error + 'b) \<times> 's) \<Rightarrow> 's \<Rightarrow> (error + 'b) \<times> 's" where
  "bindE m f s = (case m s of (Inl e, s') \<Rightarrow> (Inl e, s') | (Inr a, s') \<Rightarrow> f a s')"

text \<open>A \<open>for\<close> loop over a list whose body may raise.\<close>

fun for_each :: "'i list \<Rightarrow> ('i \<Rightarrow> 's \<Rightarrow> (error + unit) \<times> 's) \<Rightarrow> 's \<Rightarrow> (error + unit) \<times> 's" where
  "for_each [] body s = (Inr (), s)"
| "for_each (x # xs) body s =
     (case body x s of (Inl e, s') \<Rightarrow> (Inl e, s') | (Inr u, s') \<Rightarrow> for_each xs body s')"

text \<open>A generator expression consumed to the end: the first exception stops it.\<close>

fun mapE :: "('a \<Rightarrow> error + 'b) \<Rightarrow> 'a list \<Rightarrow> error + 'b list" where
  "mapE f [] = Inr []"
| "mapE f (x # xs) =
     (case f x of Inl e \<Rightarrow> Inl e
      | Inr y \<Rightarrow> (case mapE f xs of Inl e \<Rightarrow> Inl e | Inr ys \<Rightarrow> Inr (y # ys)))"

subsection \<open>Strings\<close>

definition lower_char :: "char \<Rightarrow> char" where
  "lower_char c =
     (case map_of (zip ''ABCDEFGHIJKLMNOPQRSTUVWXYZ'' ''abcdefghijklmnopqrstuvwxyz'') c of
        Some l \<Rightarrow> l | None \<Rightarrow> c)"

definition lower :: "string \<Rightarrow> string" where
  "lower s = map lower_char s"

subsection \<open>numpy and scipy\<close>

text \<open>\<open>range(k)\<close> for an attribute that should hold an \<open>int\<close>.\<close>

definition py_range :: "pyobj \<Rightarrow> error + nat list" where
  "py_range k = (case k of PyInt n \<Rightarrow> Inr [0..<nat n] | _ \<Rightarrow> Inl TypeError)"

text \<open>\<open>a.shape[k]\<close> and \<open>a[i, j]\<close> of a two-dimensional array.\<close>

definition shape_at :: "'a ndarray \<Rightarrow> nat \<Rightarrow> error + nat" where
  "shape_at a k = (if k < length (shape a) then Inr (shape a ! k) else Inl IndexError)"

definition getitem :: "'a ndarray \<Rightarrow> nat \<Rightarrow> nat \<Rightarrow> 'a" where
  "getitem a i j = data a ! (i * (shape a ! 1) + j)"

text \<open>\<open>np.fromiter\<close>: a one-dimensional float array.\<close>

definition fromiter :: "num list \<Rightarrow> num ndarray" where
  "fromiter xs = \<lparr>dtype = Float64, shape = [length xs], data = xs\<rparr>"

text \<open>\<open>np.zeros((xn, tn)) * np.nan\<close>.\<close>

definition nan_matrix :: "nat \<Rightarrow> nat \<Rightarrow> matrix" where
  "nan_matrix xn tn = \<lparr>nrows = xn, ncols = tn, cells = replicate xn (replicate tn NaN)\<rparr>"

text \<open>\<open>D[a][b] = val\<close>: an index outside the array raises.\<close>

definition setitem :: "matrix \<Rightarrow> nat \<Rightarrow> nat \<Rightarrow> num \<Rightarrow> error + matrix" where
  "setitem D a b val =
     (if a < nrows D \<and> b < ncols D
      then Inr (D\<lparr>cells := (cells D)[a := (cells D ! a)[b := val]]\<rparr>)
      else Inl IndexError)"

text \<open>
  The index pairs of the strict upper triangle of an \<open>n \<times> n\<close> matrix, row by row:
  \<open>(0,1), (0,2), \<dots>, (0,n-1), (1,2), \<dots>\<close>.
\<close>

definition upper_pairs :: "nat \<Rightarrow> (nat \<times> nat) list" where
  "upper_pairs n = concat (map (\<lambda>i. map (\<lambda>j. (i, j)) [Suc i..<n]) [0..<n])"

text \<open>
  \<open>scipy.spatial.distance.pdist(X, metric=name)\<close>: the condensed distance vector, one
  entry per pair of \<open>upper_pairs\<close> in that order; an unknown metric name raises.
\<close>

definition pdist :: "lib \<Rightarrow> real list list \<Rightarrow> string \<Rightarrow> error + real list" where
  "pdist L X m =
     (case metric L m of
        None \<Rightarrow> Inl ValueError
      | Some f \<Rightarrow> Inr (map (\<lambda>(i, j). f (X ! i) (X ! j)) (upper_pairs (length X))))"

text \<open>\<open>np.median\<close>, \<open>np.mean\<close> and \<open>np.max\<close> of a one-dimensional array.\<close>

definition np_median :: "real list \<Rightarrow> num" where
  "np_median xs =
     (if xs = [] then NaN
      else let ys = sort xs; n = length ys in
        if even n then Num ((ys ! (n div 2 - 1) + ys ! (n div 2)) / 2) else Num (ys ! (n div 2)))"

definition np_mean :: "real list \<Rightarrow> num" where
  "np_mean xs = (if xs = [] then NaN else Num (sum_list xs / real (length xs)))"

definition np_max :: "real list \<Rightarrow> error + real" where
  "np_max xs = (case xs of [] \<Rightarrow> Inl ValueError | y # ys \<Rightarrow> Inr (fold max ys y))"

text \<open>\<open>np.where(g == x)[0]\<close>: the positions that hold \<open>x\<close>.\<close>

definition where_eq :: "int list \<Rightarrow> int \<Rightarrow> nat list" where
  "where_eq g x = filter (\<lambda>a. g ! a = x) [0..<length g]"

section \<open>The class\<close>

subsection \<open>Attribute setting\<close>

definition set_values :: "real ndarray \<Rightarrow> stv \<Rightarrow> (error + unit) \<times> stv" where
  "set_values vals s =
     (if dtype vals \<noteq> Float64 \<and> dtype vals \<noteq> Int64 then (Inl AttributeError, s)
      else case shape vals of
        [m, n] \<Rightarrow>
          if m \<noteq> length (u_X s) then (Inl ValueError, s)
          else if n \<le> 1 then (Inl ValueError, s)
          else (Inr (), s\<lparr>u_values := Some vals, u_diff := None\<rparr>)
      | _ \<Rightarrow> (Inl ValueError, s))"

definition set_xdist_func :: "pyobj \<Rightarrow> stv \<Rightarrow> (error + unit) \<times> stv" where
  "set_xdist_func func_name s =
     (case func_name of
        PyStr nm \<Rightarrow> (Inr (), s\<lparr>u_xdist_func := Some nm, u_xdist := None\<rparr>)
      | _ \<Rightarrow> (Inl ValueError, s))"

definition set_tdist_func :: "pyobj \<Rightarrow> stv \<Rightarrow> (error + unit) \<times> stv" where
  "set_tdist_func func_name s =
     (case func_name of
        PyStr nm \<Rightarrow> (Inr (), s\<lparr>u_tdist_func := Some nm, u_tdist := None\<rparr>)
      | _ \<Rightarrow> (Inl ValueError, s))"

text \<open>\<open>__calc_xdist\<close> and \<open>__calc_tdist\<close>; calling an unset distance function raises.\<close>

definition calc_xdist :: "lib \<Rightarrow> bool \<Rightarrow> stv \<Rightarrow> (error + unit) \<times> stv" where
  "calc_xdist L force s =
     (if u_xdist s = None \<or> force then
        (case u_xdist_func s of
           None \<Rightarrow> (Inl TypeError, s)
         | Some nm \<Rightarrow>
             (case pdist L (u_X s) nm of
                Inl e \<Rightarrow> (Inl e, s)
              | Inr d \<Rightarrow> (Inr (), s\<lparr>u_xdist := Some d\<rparr>)))
      else (Inr (), s))"

definition calc_tdist :: "lib \<Rightarrow> bool \<Rightarrow> stv \<Rightarrow> (error + unit) \<times> stv" where
  "calc_tdist L force s =
     (if u_tdist s = None \<or> force then
        (case u_values s of
           None \<Rightarrow> (Inl AttributeError, s)
         | Some v \<Rightarrow>
             (case shape_at v 1 of
                Inl e \<Rightarrow> (Inl e, s)
              | Inr n \<Rightarrow>
                  (case u_tdist_func s of
                     None \<Rightarrow> (Inl TypeError, s)
                   | Some nm \<Rightarrow>
                       (case pdist L (map (\<lambda>k. [real k, 0]) [0..<n]) nm of
                          Inl e \<Rightarrow> (Inl e, s)
                        | Inr d \<Rightarrow> (Inr (), s\<lparr>u_tdist := Some d\<rparr>)))))
      else (Inr (), s))"

text \<open>
  The properties \<open>xdistance\<close> and \<open>tdistance\<close> return the cached attribute; after a
  calculation that did not raise it holds an array, so the last branch is never taken.
\<close>

definition xdistance :: "lib \<Rightarrow> stv \<Rightarrow> (error + real list) \<times> stv" where
  "xdistance L = bindE (calc_xdist L False) (\<lambda>_ s.
     case u_xdist s of Some d \<Rightarrow> (Inr d, s) | None \<Rightarrow> (Inl TypeError, s))"

definition tdistance :: "lib \<Rightarrow> stv \<Rightarrow> (error + real list) \<times> stv" where
  "tdistance L = bindE (calc_tdist L False) (\<lambda>_ s.
     case u_tdist s of Some d \<Rightarrow> (Inr d, s) | None \<Rightarrow> (Inl TypeError, s))"

definition x_lags :: "stv \<Rightarrow> pyobj" where
  "x_lags s = u_x_lags s"

definition set_x_lags :: "pyobj \<Rightarrow> stv \<Rightarrow> (error + unit) \<times> stv" where
  "set_x_lags lags s =
     (case lags of
        PyInt k \<Rightarrow> (Inr (), s\<lparr>u_x_lags := PyInt k, u_xbins := None, u_xgroups := None\<rparr>)
      | _ \<Rightarrow> (Inl ValueError, s))"

definition t_lags :: "stv \<Rightarrow> error + pyobj" where
  "t_lags s =
     (case u_t_lags s of
        PyStr str \<Rightarrow>
          if lower str = ''max'' then
            (case u_values s of
               None \<Rightarrow> Inl AttributeError
             | Some v \<Rightarrow>
                 (case shape_at v 1 of Inl e \<Rightarrow> Inl e | Inr n \<Rightarrow> Inr (PyInt (int n - 1))))
          else Inl ValueError
      | other \<Rightarrow> Inr other)"

definition set_t_lags :: "pyobj \<Rightarrow> stv \<Rightarrow> (error + unit) \<times> stv" where
  "set_t_lags lags s = (Inr (), s\<lparr>u_t_lags := lags, u_tbins := None, u_tgroups := None\<rparr>)"

definition maxlag :: "stv \<Rightarrow> num option" where
  "maxlag s = u_maxlag s"

text \<open>
  The \<open>maxlag\<close> setter resets the fit and the spatial binning first and looks at its
  argument afterwards; a string other than \<open>'median'\<close> and \<open>'mean'\<close> changes nothing
  more, and \<open>value < 1\<close> on a list raises.
\<close>

definition set_maxlag :: "lib \<Rightarrow> pyobj \<Rightarrow> stv \<Rightarrow> (error + unit) \<times> stv" where
  "set_maxlag L val s =
     (let s1 = s\<lparr>cov := PyNone, cof := PyNone, u_xbins := None, u_xgroups := None\<rparr> in
      case val of
        PyNone \<Rightarrow> (Inr (), s1\<lparr>u_maxlag := None\<rparr>)
      | PyStr str \<Rightarrow>
          if str = ''median'' then
            bindE (xdistance L) (\<lambda>d s2. (Inr (), s2\<lparr>u_maxlag := Some (np_median d)\<rparr>)) s1
          else if str = ''mean'' then
            bindE (xdistance L) (\<lambda>d s2. (Inr (), s2\<lparr>u_maxlag := Some (np_mean d)\<rparr>)) s1
          else (Inr (), s1)
      | PyInt k \<Rightarrow>
          if k < 1 then
            bindE (xdistance L) (\<lambda>d s2.
              case np_max d of
                Inl e \<Rightarrow> (Inl e, s2)
              | Inr m \<Rightarrow> (Inr (), s2\<lparr>u_maxlag := Some (Num (real_of_int k * m))\<rparr>)) s1
          else (Inr (), s1\<lparr>u_maxlag := Some (Num (real_of_int k))\<rparr>)
      | PyFloat r \<Rightarrow>
          if r < 1 then
            bindE (xdistance L) (\<lambda>d s2.
              case np_max d of
                Inl e \<Rightarrow> (Inl e, s2)
              | Inr m \<Rightarrow> (Inr (), s2\<lparr>u_maxlag := Some (Num (r * m))\<rparr>)) s1
          else (Inr (), s1\<lparr>u_maxlag := Some (Num r)\<rparr>)
      | _ \<Rightarrow> (Inl TypeError, s1))"

text \<open>
  \<open>set_bin_func\<close>. The first test calls \<open>bin_func.lower()\<close>; the second compares the
  method object \<open>bin_func.lower\<close> itself with the string \<open>'uniform'\<close>. An argument
  without a \<open>lower\<close> attribute raises. The last line of the method assigns \<open>cof\<close> twice.
\<close>

definition set_bin_func :: "pyobj \<Rightarrow> pyobj \<Rightarrow> stv \<Rightarrow> (error + unit) \<times> stv" where
  "set_bin_func bin_func axis s =
     (case bin_func of
        PyStr bf \<Rightarrow>
          (case (if AttrStr (lower bf) = AttrStr ''even'' then Some EvenWidthLags
                 else if AttrMethod bf ''lower'' = AttrStr ''uniform'' then Some UniformCountLags
                 else None) of
             None \<Rightarrow> (Inl ValueError, s)
           | Some f \<Rightarrow>
               (case axis of
                  PyStr ax \<Rightarrow>
                    if lower ax = ''space'' \<or> lower ax = ''s'' then
                      (Inr (), s\<lparr>u_xbin_func := Some f, u_xgroups := None, u_xbins := None,
                                cof := PyNone\<rparr>)
                    else if lower ax = ''time'' \<or> lower ax = ''t'' then
                      (Inr (), s\<lparr>u_tbin_func := Some f, u_tgroups := None, u_tbins := None,
                                cof := PyNone\<rparr>)
                    else (Inl ValueError, s)
                | _ \<Rightarrow> (Inl AttributeError, s)))
      | _ \<Rightarrow> (Inl AttributeError, s))"

definition apply_bin :: "lib \<Rightarrow> binfunc \<Rightarrow> real list \<Rightarrow> pyobj \<Rightarrow> num option \<Rightarrow> error + real list" where
  "apply_bin L f = (case f of EvenWidthLags \<Rightarrow> even_width_lags L
                            | UniformCountLags \<Rightarrow> uniform_count_lags L)"

definition xbins :: "lib \<Rightarrow> stv \<Rightarrow> (error + real list) \<times> stv" where
  "xbins L s =
     (case u_xbins s of
        Some b \<Rightarrow> (Inr b, s)
      | None \<Rightarrow>
          bindE (xdistance L) (\<lambda>d s1.
            case u_xbin_func s1 of
              None \<Rightarrow> (Inl TypeError, s1)
            | Some f \<Rightarrow>
                (case apply_bin L f d (x_lags s1) (maxlag s1) of
                   Inl e \<Rightarrow> (Inl e, s1)
                 | Inr b \<Rightarrow> (Inr b, s1\<lparr>u_xbins := Some b\<rparr>))) s)"

definition tbins :: "lib \<Rightarrow> stv \<Rightarrow> (error + real list) \<times> stv" where
  "tbins L s =
     (case u_tbins s of
        Some b \<Rightarrow> (Inr b, s)
      | None \<Rightarrow>
          bindE (tdistance L) (\<lambda>d s1.
            case t_lags s1 of
              Inl e \<Rightarrow> (Inl e, s1)
            | Inr lags \<Rightarrow>
                (case u_tbin_func s1 of
                   None \<Rightarrow> (Inl TypeError, s1)
                 | Some f \<Rightarrow>
                     (case apply_bin L f d lags None of
                        Inl e \<Rightarrow> (Inl e, s1)
                      | Inr b \<Rightarrow> (Inr b, s1\<lparr>u_tbins := Some b\<rparr>)))) s)"

text \<open>The attribute \<open>estimators.<name>\<close> of the estimators module.\<close>

definition builtin_estimator :: "lib \<Rightarrow> string \<Rightarrow> estimator option" where
  "builtin_estimator L nm =
     (if nm = ''matheron'' then Some (Estimator ''matheron'' (matheron L))
      else if nm = ''cressie'' then Some (Estimator ''cressie'' (cressie L))
      else if nm = ''dowd'' then Some (Estimator ''dowd'' (dowd L))
      else if nm = ''genton'' then Some (Estimator ''genton'' (genton L))
      else if nm = ''minmax'' then Some (Estimator ''minmax'' (minmax L))
      else if nm = ''percentile'' then Some (Estimator ''percentile'' (percentile L))
      else if nm = ''entropy'' then Some (Estimator ''entropy'' (entropy L))
      else None)"

definition set_estimator :: "lib \<Rightarrow> pyobj \<Rightarrow> stv \<Rightarrow> (error + unit) \<times> stv" where
  "set_estimator L estimator_name s =
     (let s1 = s\<lparr>cof := PyNone, cov := PyNone\<rparr> in
      case estimator_name of
        PyStr nm \<Rightarrow>
          (case builtin_estimator L (lower nm) of
             Some e \<Rightarrow> (Inr (), s1\<lparr>u_estimator := Some e\<rparr>)
           | None \<Rightarrow> (Inl ValueError, s1))
      | PyFun e \<Rightarrow> (Inr (), s1\<lparr>u_estimator := Some e\<rparr>)
      | _ \<Rightarrow> (Inl ValueError, s1))"

subsection \<open>Pre-processing\<close>

text \<open>
  The four loops of \<open>_calc_diff\<close>. The loop state is the array \<open>_diff\<close> and the two
  counters \<open>xidx\<close> and \<open>tidx\<close>.
\<close>

definition diff_cell ::
  "lib \<Rightarrow> real ndarray \<Rightarrow> nat \<Rightarrow> nat \<Rightarrow> nat \<Rightarrow> nat \<Rightarrow> matrix \<times> nat \<times> nat \<Rightarrow> (error + unit) \<times> (matrix \<times> nat \<times> nat)" where
  "diff_cell L v xi xj ti tj = (\<lambda>(D, xidx, tidx).
     if ti < tj then
       (case setitem D xidx tidx (subtract L (dtype v) (getitem v xi ti) (getitem v xj tj)) of
          Inl e \<Rightarrow> (Inl e, (D, xidx, tidx))
        | Inr D' \<Rightarrow> (Inr (), (D', xidx, tidx + 1)))
     else (Inr (), (D, xidx, tidx)))"

definition diff_pair ::
  "lib \<Rightarrow> real ndarray \<Rightarrow> nat \<Rightarrow> nat \<Rightarrow> nat \<Rightarrow> matrix \<times> nat \<times> nat \<Rightarrow> (error + unit) \<times> (matrix \<times> nat \<times> nat)" where
  "diff_pair L v inner xi xj = (\<lambda>(D, xidx, tidx).
     if xi < xj then
       bindE (for_each [0..<inner] (\<lambda>ti. for_each [0..<inner] (\<lambda>tj. diff_cell L v xi xj ti tj)))
         (\<lambda>_ (D', xidx', tidx'). (Inr (), (D', xidx' + 1, tidx')))
         (D, xidx, 0)
     else (Inr (), (D, xidx, tidx)))"

definition diff_loops ::
  "lib \<Rightarrow> real ndarray \<Rightarrow> nat \<Rightarrow> nat \<Rightarrow> matrix \<times> nat \<times> nat \<Rightarrow> (error + unit) \<times> (matrix \<times> nat \<times> nat)" where
  "diff_loops L v outer inner =
     for_each [0..<outer] (\<lambda>xi. for_each [0..<outer] (\<lambda>xj. diff_pair L v inner xi xj))"

definition calc_diff :: "lib \<Rightarrow> bool \<Rightarrow> stv \<Rightarrow> (error + unit) \<times> stv" where
  "calc_diff L force s =
     (if \<not> force \<and> u_diff s \<noteq> None then (Inr (), s)
      else
        bindE (xdistance L) (\<lambda>xd. bindE (tdistance L) (\<lambda>td s1.
          case u_values s1 of
            None \<Rightarrow> (Inl AttributeError, s1)
          | Some v \<Rightarrow>
              (case shape v of
                 [outer, inner] \<Rightarrow>
                   (case diff_loops L v outer inner (nan_matrix (length xd) (length td), 0, 0) of
                      (r, (D, xidx, tidx)) \<Rightarrow> (r, s1\<lparr>u_diff := Some D\<rparr>))
               | _ \<Rightarrow> (Inl ValueError, s1)))) s)"

text \<open>
  The classification of \<open>_calc_group\<close>: every group starts at \<open>-1\<close>; for the \<open>i\<close>-th
  pair of bounds of \<open>zip([0] + list(bins), bins)\<close> the entries whose distance lies in
  \<open>(bounds[0], bounds[1]]\<close> are set to \<open>i\<close>.
\<close>

definition group_assign :: "real \<times> real \<Rightarrow> real list \<Rightarrow> int list \<Rightarrow> int \<Rightarrow> int list" where
  "group_assign bounds d grp i =
     map (\<lambda>(x, g). if x > fst bounds \<and> x \<le> snd bounds then i else g) (zip d grp)"

fun group_loop :: "nat \<Rightarrow> (real \<times> real) list \<Rightarrow> real list \<Rightarrow> int list \<Rightarrow> int list" where
  "group_loop i [] d grp = grp"
| "group_loop i (bounds # rest) d grp =
     group_loop (Suc i) rest d (group_assign bounds d grp (int i))"

definition group_classes :: "real list \<Rightarrow> real list \<Rightarrow> int list" where
  "group_classes d bins = group_loop 0 (zip (0 # bins) bins) d (replicate (length d) (- 1))"

definition calc_group :: "lib \<Rightarrow> string \<Rightarrow> bool \<Rightarrow> stv \<Rightarrow> (error + unit) \<times> stv" where
  "calc_group L axis force s =
     (if lower axis = ''space'' \<or> lower axis = ''s'' then
        (if \<not> force \<and> u_xgroups s \<noteq> None then (Inr (), s)
         else
           bindE (xbins L) (\<lambda>bins. bindE (xdistance L) (\<lambda>d s1.
             (Inr (), s1\<lparr>u_xgroups := Some (group_classes d bins)\<rparr>))) s)
      else if lower axis = ''time'' \<or> lower axis = ''t'' then
        (if \<not> force \<and> u_tgroups s \<noteq> None then (Inr (), s)
         else
           bindE (tbins L) (\<lambda>bins. bindE (tdistance L) (\<lambda>d s1.
             (Inr (), s1\<lparr>u_tgroups := Some (group_classes d bins)\<rparr>))) s)
      else (Inl ValueError, s))"

definition lag_groups :: "lib \<Rightarrow> pyobj \<Rightarrow> stv \<Rightarrow> (error + int list option) \<times> stv" where
  "lag_groups L axis s =
     (case axis of
        PyStr ax \<Rightarrow>
          if lower ax = ''space'' \<or> lower ax = ''s'' then
            (if u_xgroups s = None
             then bindE (calc_group L ax False) (\<lambda>_ s1. (Inr (u_xgroups s1), s1)) s
             else (Inr (u_xgroups s), s))
          else if lower ax = ''time'' \<or> lower ax = ''t'' then
            (if u_tgroups s = None
             then bindE (calc_group L ax False) (\<lambda>_ s1. (Inr (u_tgroups s1), s1)) s
             else (Inr (u_tgroups s), s))
          else (Inl ValueError, s)
      | _ \<Rightarrow> (Inl AttributeError, s))"

text \<open>
  \<open>np.where(grp == x)[0]\<close> for an attribute that may still be \<open>None\<close>: the
  comparison of \<open>None\<close> with a number is \<open>False\<close> and selects nothing.
\<close>

definition np_where_eq :: "int list option \<Rightarrow> int \<Rightarrow> nat list" where
  "np_where_eq grp x = (case grp of None \<Rightarrow> [] | Some g \<Rightarrow> where_eq g x)"

text \<open>\<open>D[ridx][:, cidx].flatten()\<close>: an index outside the array raises.\<close>

definition index_flatten :: "matrix \<Rightarrow> nat list \<Rightarrow> nat list \<Rightarrow> error + num list" where
  "index_flatten D ridx cidx =
     (if list_ex (\<lambda>a. nrows D \<le> a) ridx then Inl IndexError
      else if list_ex (\<lambda>b. ncols D \<le> b) cidx then Inl IndexError
      else Inr (concat (map (\<lambda>a. map (\<lambda>b. cells D ! a ! b) cidx) ridx)))"

text \<open>The closure \<open>diff_select\<close> of \<open>lag_classes\<close>, flattened.\<close>

definition diff_select :: "stv \<Rightarrow> int list option \<Rightarrow> int list option \<Rightarrow> int \<Rightarrow> int \<Rightarrow> error + num list" where
  "diff_select s xgrp tgrp x t =
     (case u_diff s of
        None \<Rightarrow> Inl TypeError
      | Some D \<Rightarrow> index_flatten D (np_where_eq xgrp x) (np_where_eq tgrp t))"

text \<open>
  \<open>lag_classes\<close> is a generator; the model returns everything it yields, in order:
  the outer loop runs over the space lags, the inner over the time lags.
\<close>

definition lag_classes :: "lib \<Rightarrow> stv \<Rightarrow> (error + num list list) \<times> stv" where
  "lag_classes L =
     bindE (\<lambda>s. if u_diff s = None then calc_diff L False s else (Inr (), s)) (\<lambda>_.
     bindE (lag_groups L (PyStr ''space'')) (\<lambda>xgrp.
     bindE (lag_groups L (PyStr ''time'')) (\<lambda>tgrp s.
       (case py_range (x_lags s) of
          Inl e \<Rightarrow> Inl e
        | Inr xs \<Rightarrow>
            (case mapE (\<lambda>x.
                 case t_lags s of
                   Inl e \<Rightarrow> Inl e
                 | Inr lags \<Rightarrow>
                     (case py_range lags of
                        Inl e \<Rightarrow> Inl e
                      | Inr ts \<Rightarrow> mapE (\<lambda>t. diff_select s xgrp tgrp (int x) (int t)) ts)) xs of
               Inl e \<Rightarrow> Inl e
             | Inr css \<Rightarrow> Inr (concat css)), s))))"

definition get_experimental :: "lib \<Rightarrow> stv \<Rightarrow> (error + num ndarray) \<times> stv" where
  "get_experimental L s =
     (case u_estimator s of
        None \<Rightarrow> (Inl AttributeError, s)
      | Some e \<Rightarrow>
          if fname e = ''entropy'' then (Inl NotImplementedError, s)
          else bindE (lag_classes L) (\<lambda>cls s1. (Inr (fromiter (map (call e) cls)), s1)) s)"

definition experimental :: "lib \<Rightarrow> stv \<Rightarrow> (error + num ndarray) \<times> stv" where
  "experimental L s = get_experimental L s"

definition preprocessing :: "lib \<Rightarrow> bool \<Rightarrow> stv \<Rightarrow> (error + unit) \<times> stv" where
  "preprocessing L force =
     bindE (calc_xdist L force) (\<lambda>_.
     bindE (calc_tdist L force) (\<lambda>_.
     bindE (calc_diff L force) (\<lambda>_.
     bindE (calc_group L ''space'' force) (\<lambda>_.
     calc_group L ''time'' force))))"

subsection \<open>Results\<close>

definition get_member :: "stv \<Rightarrow> int \<Rightarrow> int \<Rightarrow> error + num list" where
  "get_member s xlag tlag =
     (case u_diff s of
        None \<Rightarrow> Inl TypeError
      | Some D \<Rightarrow> index_flatten D (np_where_eq (u_xgroups s) xlag) (np_where_eq (u_tgroups s) tlag))"

text \<open>Calling the estimator: an estimator that is still \<open>None\<close> is not callable.\<close>

definition call_estimator :: "stv \<Rightarrow> error + num list \<Rightarrow> error + num" where
  "call_estimator s arg =
     (case arg of
        Inl e \<Rightarrow> Inl e
      | Inr vals \<Rightarrow> (case u_estimator s of None \<Rightarrow> Inl TypeError | Some e \<Rightarrow> Inr (call e vals)))"

definition get_marginal :: "pyobj \<Rightarrow> int \<Rightarrow> stv \<Rightarrow> error + num ndarray" where
  "get_marginal axis lag s =
     (case axis of
        PyStr ax \<Rightarrow>
          if lower ax = ''space'' \<or> lower ax = ''s'' then
            (case py_range (x_lags s) of
               Inl e \<Rightarrow> Inl e
             | Inr ks \<Rightarrow>
                 (case mapE (\<lambda>i. call_estimator s (get_member s (int i) lag)) ks of
                    Inl e \<Rightarrow> Inl e
                  | Inr z \<Rightarrow> Inr (fromiter z)))
          else if lower ax = ''time'' \<or> lower ax = ''t'' then
            (case t_lags s of
               Inl e \<Rightarrow> Inl e
             | Inr lags \<Rightarrow>
                 (case py_range lags of
                    Inl e \<Rightarrow> Inl e
                  | Inr ks \<Rightarrow>
                      (case mapE (\<lambda>j. call_estimator s (get_member s lag (int j))) ks of
                         Inl e \<Rightarrow> Inl e
                       | Inr z \<Rightarrow> Inr (fromiter z))))
          else Inl ValueError
      | _ \<Rightarrow> Inl AttributeError)"

subsection \<open>The constructor\<close>

definition new_instance :: "real list list \<Rightarrow> bool \<Rightarrow> stv" where
  "new_instance coordinates vb =
     \<lparr>u_X = coordinates, u_diff = None, verbose = vb, cov = PyNone, cof = PyNone,
      u_values = None, u_xdist = None, u_tdist = None, u_xdist_func = None,
      u_tdist_func = None, u_x_lags = PyNone, u_t_lags = PyNone, u_maxlag = None,
      u_estimator = None, u_xbin_func = None, u_xgroups = None, u_xbins = None,
      u_tbin_func = None, u_tgroups = None, u_tbins = None\<rparr>"

definition init ::
  "lib \<Rightarrow> real list list \<Rightarrow> real ndarray \<Rightarrow> pyobj \<Rightarrow> pyobj \<Rightarrow> pyobj \<Rightarrow> pyobj \<Rightarrow> pyobj \<Rightarrow> pyobj
     \<Rightarrow> pyobj \<Rightarrow> pyobj \<Rightarrow> bool \<Rightarrow> (error + unit) \<times> stv" where
  "init L coordinates vals xdist_func tdist_func xlags tlags mxlag xbin tbin est vb =
     (bindE (set_values vals) (\<lambda>_.
      bindE (set_xdist_func xdist_func) (\<lambda>_.
      bindE (set_tdist_func tdist_func) (\<lambda>_.
      bindE (set_x_lags xlags) (\<lambda>_.
      bindE (set_t_lags tlags) (\<lambda>_.
      bindE (set_maxlag L mxlag) (\<lambda>_.
      bindE (set_estimator L est) (\<lambda>_.
      bindE (set_bin_func xbin (PyStr ''space'')) (\<lambda>_.
      bindE (set_bin_func tbin (PyStr ''time'')) (\<lambda>_.
      preprocessing L True))))))))))
       (new_instance coordinates vb)"

section \<open>The worked scenario\<close>

text \<open>
  Three points on a line at \<open>x = 0, 1, 2\<close>, each with a time series of three steps,
  the euclidean metric on both axes, two lag classes per axis, even-width bins and
  the Matheron estimator. The collaborators the scenario calls are given a body; the
  others stay unspecified.
\<close>

text \<open>The euclidean metric of \<open>pdist\<close>.\<close>

definition euclidean :: "real list \<Rightarrow> real list \<Rightarrow> real" where
  "euclidean p q = sqrt (sum_list (map (\<lambda>(a, b). (a - b)\<^sup>2) (zip p q)))"

text \<open>
  Modelled from the spec: \<open>skgstat.binning.even_width_lags\<close>, which is not among the
  sources. The edges are \<open>max_lag/lag_count, 2\<cdot>max_lag/lag_count, \<dots>, max_lag\<close>, where
  \<open>max_lag\<close> defaults to the maximum observed distance when unspecified.
\<close>

definition spec_even_width_lags :: "real list \<Rightarrow> pyobj \<Rightarrow> num option \<Rightarrow> error + real list" where
  "spec_even_width_lags d n mx =
     (case n of
        PyInt k \<Rightarrow>
          (case (case mx of Some (Num m) \<Rightarrow> Inr m | _ \<Rightarrow> np_max d) of
             Inl e \<Rightarrow> Inl e
           | Inr m \<Rightarrow> Inr (map (\<lambda>i. real (Suc i) * m / real_of_int k) [0..<nat k]))
      | _ \<Rightarrow> Inl TypeError)"

text \<open>
  Modelled from the spec: \<open>skgstat.estimators.matheron\<close>, which is not among the
  sources: half the mean squared difference; a sequence without members, or with a
  \<open>NaN\<close> among them, gives \<open>NaN\<close>.
\<close>

definition spec_matheron :: "num list \<Rightarrow> num" where
  "spec_matheron xs =
     (if xs = [] \<or> NaN \<in> set xs then NaN
      else Num (sum_list (map (\<lambda>x. case x of Num r \<Rightarrow> r\<^sup>2 | NaN \<Rightarrow> 0) xs) / (2 * real (length xs))))"

text \<open>
  The subtraction of two \<open>float64\<close> or two \<open>int64\<close> scalars is exact when both are
  integers of magnitude at most \<open>2\<^sup>5\<^sup>2\<close>, and so is the store of the result in a
  float array. The data of the scenario are such integers; for other operands the
  scenario gives the subtraction no value.
\<close>

definition small_int_subtract :: "dtype \<Rightarrow> real \<Rightarrow> real \<Rightarrow> num" where
  "small_int_subtract dt a b =
     (if (dt = Float64 \<or> dt = Int64) \<and> a = of_int \<lfloor>a\<rfloor> \<and> b = of_int \<lfloor>b\<rfloor>
         \<and> \<bar>a\<bar> \<le> 4503599627370496 \<and> \<bar>b\<bar> \<le> 4503599627370496
      then Num (a - b) else undefined)"

definition scenario_lib :: lib where
  "scenario_lib =
     \<lparr>metric = (\<lambda>nm. if nm = ''euclidean'' then Some euclidean else None),
      subtract = small_int_subtract,
      even_width_lags = spec_even_width_lags,
      uniform_count_lags = undefined,
      matheron = spec_matheron,
      cressie = undefined, dowd = undefined, genton = undefined, minmax = undefined,
      percentile = undefined, entropy = undefined\<rparr>"

definition scenario_values :: "real ndarray" where
  "scenario_values = \<lparr>dtype = Float64, shape = [3, 3], data = [1, 2, 4, 2, 3, 7, 5, 5, 6]\<rparr>"

definition scenario :: "(error + unit) \<times> stv" where
  "scenario =
     init scenario_lib [[0], [1], [2]] scenario_values (PyStr ''euclidean'') (PyStr ''euclidean'')
       (PyInt 2) (PyInt 2) PyNone (PyStr ''even'') (PyStr ''even'') (PyStr ''matheron'') False"

text \<open>The instance the constructor returns for the scenario.\<close>

definition scenario_instance :: stv where
  "scenario_instance =
     \<lparr>u_X = [[0], [1], [2]],
      u_diff = Some \<lparr>nrows = 3, ncols = 3,
        cells = [[Num (- 2), Num (- 6), Num (- 5)],
                 [Num (- 4), Num (- 5), Num (- 4)],
                 [Num (- 3), Num (- 4), Num (- 3)]]\<rparr>,
      verbose = False, cov = PyNone, cof = PyNone,
      u_values = Some scenario_values,
      u_xdist = Some [1, 2, 1], u_tdist = Some [1, 2, 1],
      u_xdist_func = Some ''euclidean'', u_tdist_func = Some ''euclidean'',
      u_x_lags = PyInt 2, u_t_lags = PyInt 2, u_maxlag = None,
      u_estimator = Some (Estimator ''matheron'' spec_matheron),
      u_xbin_func = Some EvenWidthLags, u_xgroups = Some [0, 1, 0], u_xbins = Some [1, 2],
      u_tbin_func = Some EvenWidthLags, u_tgroups = Some [0, 1, 0], u_tbins = Some [1, 2]\<rparr>"

text \<open>A replacement value matrix with two time steps instead of three.\<close>

definition scenario_values_2 :: "real ndarray" where
  "scenario_values_2 = \<lparr>dtype = Float64, shape = [3, 2], data = [1, 2, 2, 3, 5, 5]\<rparr>"

text \<open>A replacement value matrix with four time steps instead of three.\<close>

definition scenario_values_4 :: "real ndarray" where
  "scenario_values_4 =
     \<lparr>dtype = Float64, shape = [3, 4], data = [1, 2, 4, 8, 2, 3, 7, 9, 5, 5, 6, 6]\<rparr>"

section \<open>Auxiliary definitions\<close>

text \<open>The class one distance ends in after the loop of \<open>group_loop\<close>.\<close>

fun class_of :: "nat \<Rightarrow> (real \<times> real) list \<Rightarrow> real \<Rightarrow> int \<Rightarrow> int" where
  "class_of i [] x g = g"
| "class_of i (bounds # rest) x g =
     class_of (Suc i) rest x (if x > fst bounds \<and> x \<le> snd bounds then int i else g)"

text \<open>The entry of the difference tensor for a pair of points and a pair of time steps.\<close>

definition diff_entry :: "lib \<Rightarrow> real ndarray \<Rightarrow> nat \<times> nat \<Rightarrow> nat \<times> nat \<Rightarrow> num" where
  "diff_entry L v p q = subtract L (dtype v) (getitem v (fst p) (fst q)) (getitem v (snd p) (snd q))"

text \<open>
  What reading a cached property may change: it fills a distance cache that was empty
  and leaves the values, the tensor, the lag counts and the estimator alone.
\<close>

definition cache_ext :: "stv \<Rightarrow> stv \<Rightarrow> bool" where
  "cache_ext s s' =
     (u_diff s' = u_diff s \<and> u_values s' = u_values s \<and> u_X s' = u_X s
      \<and> u_x_lags s' = u_x_lags s \<and> u_t_lags s' = u_t_lags s
      \<and> u_estimator s' = u_estimator s
      \<and> (u_xdist s \<noteq> None \<longrightarrow> u_xdist s' = u_xdist s)
      \<and> (u_tdist s \<noteq> None \<longrightarrow> u_tdist s' = u_tdist s))"

text \<open>
  A pre-processed instance: the tensor and the two group arrays are cached, one group
  per row and one per column of the tensor.
\<close>

definition preprocessed :: "stv \<Rightarrow> bool" where
  "preprocessed s =
     (case (u_diff s, u_xgroups s, u_tgroups s) of
        (Some D, Some xg, Some tg) \<Rightarrow> length xg = nrows D \<and> length tg = ncols D
      | _ \<Rightarrow> False)"

text \<open>
  The members of the lag class \<open>(x, t)\<close>: the entries of the tensor whose row is in
  space class \<open>x\<close> and whose column is in time class \<open>t\<close>, row by row.
\<close>

definition lag_cell :: "matrix \<Rightarrow> int list \<Rightarrow> int list \<Rightarrow> int \<Rightarrow> int \<Rightarrow> num list" where
  "lag_cell D xg tg x t =
     concat (map (\<lambda>a. map (\<lambda>b. cells D ! a ! b) (where_eq tg t)) (where_eq xg x))"

section \<open>Lag grouping\<close>

lemma group_loop_pointwise:
  "length grp = length d \<Longrightarrow>
   group_loop i bs d grp = map (\<lambda>(x, g). class_of i bs x g) (zip d grp)"
proof (induction bs arbitrary: i grp)
  case Nil
  then show ?case by (simp add: map_snd_zip[unfolded snd_def] case_prod_unfold map_snd_zip)
next
  case (Cons b bs)
  have len: "length (group_assign b d grp (int i)) = length d"
    using Cons.prems by (simp add: group_assign_def)
  have z: "zip d (group_assign b d grp (int i)) =
      map (\<lambda>(x, g). (x, if x > fst b \<and> x \<le> snd b then int i else g)) (zip d grp)"
    using Cons.prems
    by (intro nth_equalityI) (auto simp: group_assign_def)
  show ?case
    by (simp add: Cons.IH[OF len] z case_prod_unfold comp_def)
qed

lemma group_classes_map:
  "group_classes d bins = map (\<lambda>x. class_of 0 (zip (0 # bins) bins) x (- 1)) d"
proof -
  have "zip d (replicate (length d) (- 1 :: int)) = map (\<lambda>x. (x, - 1)) d"
    by (intro nth_equalityI) auto
  then show ?thesis
    by (simp add: group_classes_def group_loop_pointwise comp_def)
qed

lemma class_of_miss:
  "(\<And>b. b \<in> set bs \<Longrightarrow> \<not> (fst b < x \<and> x \<le> snd b)) \<Longrightarrow> class_of i bs x g = g"
  by (induction bs arbitrary: i g) auto

lemma class_of_hit:
  "j < length bs \<Longrightarrow> fst (bs ! j) < x \<and> x \<le> snd (bs ! j) \<Longrightarrow>
   (\<And>j'. j < j' \<Longrightarrow> j' < length bs \<Longrightarrow> \<not> (fst (bs ! j') < x \<and> x \<le> snd (bs ! j'))) \<Longrightarrow>
   class_of i bs x g = int (i + j)"
proof (induction bs arbitrary: i j g)
  case Nil
  then show ?case by simp
next
  case (Cons b bs)
  show ?case
  proof (cases j)
    case 0
    have miss: "\<And>c. c \<in> set bs \<Longrightarrow> \<not> (fst c < x \<and> x \<le> snd c)"
    proof -
      fix c assume "c \<in> set bs"
      then obtain m where m: "m < length bs" "bs ! m = c" by (auto simp: in_set_conv_nth)
      from Cons.prems(3)[of "Suc m"] 0 m show "\<not> (fst c < x \<and> x \<le> snd c)" by auto
    qed
    from Cons.prems(2) 0 have "fst b < x \<and> x \<le> snd b" by simp
    then show ?thesis using 0 class_of_miss[OF miss] by simp
  next
    case (Suc m)
    have a: "m < length bs" using Cons.prems(1) Suc by simp
    have b: "fst (bs ! m) < x \<and> x \<le> snd (bs ! m)" using Cons.prems(2) Suc by simp
    have c: "\<And>j'. m < j' \<Longrightarrow> j' < length bs \<Longrightarrow> \<not> (fst (bs ! j') < x \<and> x \<le> snd (bs ! j'))"
      using Cons.prems(3)[of "Suc j'" for j'] Suc by auto
    show ?thesis using Cons.IH[OF a b c] Suc by simp
  qed
qed

lemma bounds_nth:
  "i < length bins \<Longrightarrow> zip (0 # bins) bins ! i = ((0 # bins) ! i, bins ! i)"
  by simp

lemma sorted_bounds_disjoint:
  assumes "sorted bins" "i < j" "j < length bins" "x \<le> bins ! i"
  shows "\<not> ((0 # bins) ! j < x)"
proof -
  from assms(2) obtain m where m: "j = Suc m" "i \<le> m" by (cases j) auto
  have "bins ! i \<le> bins ! m" using assms(1,3) m by (simp add: sorted_nth_mono)
  then show ?thesis using assms(4) m by simp
qed

lemma class_of_sorted_hit:
  assumes "sorted bins" "i < length bins" "(0 # bins) ! i < x" "x \<le> bins ! i"
  shows "class_of 0 (zip (0 # bins) bins) x g = int i"
proof -
  have "class_of 0 (zip (0 # bins) bins) x g = int (0 + i)"
  proof (rule class_of_hit)
    show "i < length (zip (0 # bins) bins)" using assms(2) by simp
    show "fst (zip (0 # bins) bins ! i) < x \<and> x \<le> snd (zip (0 # bins) bins ! i)"
      using assms by simp
  next
    fix j' assume j: "i < j'" "j' < length (zip (0 # bins) bins)"
    then have "j' < length bins" by simp
    from sorted_bounds_disjoint[OF assms(1) j(1) this assms(4)] this
    show "\<not> (fst (zip (0 # bins) bins ! j') < x \<and> x \<le> snd (zip (0 # bins) bins ! j'))"
      by simp
  qed
  then show ?thesis by simp
qed

lemma class_of_sorted_miss:
  assumes "\<And>i. i < length bins \<Longrightarrow> \<not> ((0 # bins) ! i < x \<and> x \<le> bins ! i)"
  shows "class_of 0 (zip (0 # bins) bins) x g = g"
proof (rule class_of_miss)
  fix b assume "b \<in> set (zip (0 # bins) bins)"
  then obtain m where m: "m < length (zip (0 # bins) bins)" "zip (0 # bins) bins ! m = b"
    by (auto simp: in_set_conv_nth)
  then have "m < length bins" by simp
  from assms[OF this] m this show "\<not> (fst b < x \<and> x \<le> snd b)" by auto
qed

text \<open>
  C2: for ordered bin edges, lag-class grouping gives the distance \<open>d ! k\<close> the
  smallest edge index \<open>i\<close> with \<open>edge[i-1] < d \<le> edge[i]\<close>, where \<open>edge[-1] = 0\<close> (the
  entry \<open>i\<close> of \<open>0 # edges\<close>), and \<open>-1\<close> when there is no such index; a distance equal
  to \<open>edge[i]\<close> is given class \<open>i\<close>, not \<open>i + 1\<close>.
\<close>

theorem group_classes_smallest_edge:
  assumes "sorted edges" and "k < length d"
  shows "length (group_classes d edges) = length d
    \<and> (\<forall>i<length edges. (0 # edges) ! i < d ! k \<and> d ! k \<le> edges ! i \<longrightarrow>
          group_classes d edges ! k = int i
          \<and> (\<forall>j<i. \<not> ((0 # edges) ! j < d ! k \<and> d ! k \<le> edges ! j)))
    \<and> ((\<forall>i<length edges. \<not> ((0 # edges) ! i < d ! k \<and> d ! k \<le> edges ! i)) \<longrightarrow>
          group_classes d edges ! k = - 1)
    \<and> (\<forall>i<length edges. d ! k = edges ! i \<and> (0 # edges) ! i < edges ! i \<longrightarrow>
          group_classes d edges ! k = int i \<and> group_classes d edges ! k \<noteq> int (i + 1))"
proof -
  have nth: "group_classes d edges ! k = class_of 0 (zip (0 # edges) edges) (d ! k) (- 1)"
    using assms(2) by (simp add: group_classes_map)
  have len: "length (group_classes d edges) = length d"
    by (simp add: group_classes_map)
  have hit: "group_classes d edges ! k = int i
      \<and> (\<forall>j<i. \<not> ((0 # edges) ! j < d ! k \<and> d ! k \<le> edges ! j))"
    if "i < length edges" "(0 # edges) ! i < d ! k" "d ! k \<le> edges ! i" for i
  proof
    show "group_classes d edges ! k = int i"
      using class_of_sorted_hit[OF assms(1) that] nth by simp
    show "\<forall>j<i. \<not> ((0 # edges) ! j < d ! k \<and> d ! k \<le> edges ! j)"
    proof (intro allI impI)
      fix j assume "j < i"
      from sorted_bounds_disjoint[OF assms(1) this that(1)] that(2)
      show "\<not> ((0 # edges) ! j < d ! k \<and> d ! k \<le> edges ! j)" by blast
    qed
  qed
  have miss: "group_classes d edges ! k = - 1"
    if "\<forall>i<length edges. \<not> ((0 # edges) ! i < d ! k \<and> d ! k \<le> edges ! i)"
    using class_of_sorted_miss[of edges "d ! k" "- 1"] that nth by simp
  have edge: "group_classes d edges ! k = int i \<and> group_classes d edges ! k \<noteq> int (i + 1)"
    if "i < length edges" "d ! k = edges ! i" "(0 # edges) ! i < edges ! i" for i
    using hit[of i] that by simp
  show ?thesis using len hit miss edge by blast
qed

theorem group_classes_smallest_edge_witness:
  "sorted [1, 2, 3 :: real] \<and> (0 :: nat) < length [2 :: real]
   \<and> group_classes [2] [1, 2, 3] ! 0 = 1 \<and> group_classes [2] [1, 2, 3] ! 0 \<noteq> 2"
proof -
  have h1: "sorted [1, 2, 3 :: real]" by simp
  have h2: "(0 :: nat) < length [2 :: real]" by simp
  note T = group_classes_smallest_edge[OF h1 h2]
  from T have "\<forall>i<length [1, 2, 3 :: real]. [2 :: real] ! 0 = [1, 2, 3] ! i \<and> (0 # [1, 2, 3]) ! i < [1, 2, 3 :: real] ! i \<longrightarrow>
          group_classes [2] [1, 2, 3] ! 0 = int i \<and> group_classes [2] [1, 2, 3] ! 0 \<noteq> int (i + 1)"
    by blast
  from this[rule_format, of 1] have "group_classes [2] [1, 2, 3] ! 0 = 1 \<and> group_classes [2] [1, 2, 3] ! 0 \<noteq> 2"
    by simp
  then show ?thesis using h1 h2 by blast
qed

lemma class_of_sorted_classified:
  assumes "sorted bins" "bins \<noteq> []" "0 \<le> hd bins"
  shows "(class_of 0 (zip (0 # bins) bins) x (- 1) \<noteq> - 1) = (0 < x \<and> x \<le> last bins)"
    and "class_of 0 (zip (0 # bins) bins) x (- 1) = - 1
         \<or> (0 \<le> class_of 0 (zip (0 # bins) bins) x (- 1)
            \<and> class_of 0 (zip (0 # bins) bins) x (- 1) < int (length bins))"
proof -
  let ?c = "class_of 0 (zip (0 # bins) bins) x (- 1)"
  have pos: "0 \<le> (0 # bins) ! i" if "i < length bins" for i
  proof (cases i)
    case 0
    then show ?thesis by simp
  next
    case (Suc m)
    have "bins ! 0 \<le> bins ! m" using assms(1) that Suc by (simp add: sorted_nth_mono)
    then show ?thesis using assms(2,3) Suc by (simp add: hd_conv_nth)
  qed
  have top: "bins ! i \<le> last bins" if "i < length bins" for i
    using assms(1,2) that by (simp add: last_conv_nth sorted_nth_mono)
  have cases: "(\<exists>i<length bins. (0 # bins) ! i < x \<and> x \<le> bins ! i \<and> ?c = int i)
      \<or> ((\<forall>i<length bins. \<not> ((0 # bins) ! i < x \<and> x \<le> bins ! i)) \<and> ?c = - 1)"
    using class_of_sorted_hit[OF assms(1), of _ x "- 1"] class_of_sorted_miss[of bins x "- 1"]
    by blast
  have inside: "\<exists>i<length bins. (0 # bins) ! i < x \<and> x \<le> bins ! i" if "0 < x" "x \<le> last bins"
  proof -
    define P where "P = (\<lambda>i. i < length bins \<and> x \<le> bins ! i)"
    have "P (length bins - 1)" using assms(2) that(2) by (simp add: P_def last_conv_nth)
    then have L: "P (LEAST i. P i)" by (rule LeastI)
    let ?i = "LEAST i. P i"
    have "(0 # bins) ! ?i < x"
    proof (cases ?i)
      case 0
      then show ?thesis using that(1) by simp
    next
      case (Suc m)
      then have "\<not> P m" using not_less_Least[of m P] by simp
      moreover have "m < length bins" using L Suc by (simp add: P_def)
      ultimately show ?thesis using Suc by (simp add: P_def)
    qed
    then show ?thesis using L by (auto simp: P_def)
  qed
  show "(?c \<noteq> - 1) = (0 < x \<and> x \<le> last bins)"
  proof
    assume "?c \<noteq> - 1"
    with cases obtain i where i: "i < length bins" "(0 # bins) ! i < x" "x \<le> bins ! i" by blast
    from pos[OF i(1)] i(2) top[OF i(1)] i(3) show "0 < x \<and> x \<le> last bins" by simp
  next
    assume "0 < x \<and> x \<le> last bins"
    with inside cases show "?c \<noteq> - 1" by fastforce
  qed
  show "?c = - 1 \<or> (0 \<le> ?c \<and> ?c < int (length bins))"
    using cases by auto
qed

text \<open>
  C7, amended: for ordered, non-negative bin edges, the number of entries that are
  given a class index in \<open>0..lag_count-1\<close> (the entries that are not \<open>-1\<close>) is the number of
  distances \<open>d\<close> with \<open>0 < d \<le> last edge\<close>. A distance of \<open>0\<close> lies in no class, since
  the first class is \<open>(0, edge[0]]\<close>.
\<close>

theorem group_classes_count:
  assumes "sorted edges" and "edges \<noteq> []" and "0 \<le> hd edges"
  shows "length (filter (\<lambda>g. 0 \<le> g \<and> g < int (length edges)) (group_classes d edges))
           = length (filter (\<lambda>x. 0 < x \<and> x \<le> last edges) d)
       \<and> length (filter (\<lambda>g. g \<noteq> - 1) (group_classes d edges))
           = length (filter (\<lambda>x. 0 < x \<and> x \<le> last edges) d)"
proof -
  let ?c = "\<lambda>x. class_of 0 (zip (0 # edges) edges) x (- 1)"
  have a: "(0 \<le> ?c x \<and> ?c x < int (length edges)) = (0 < x \<and> x \<le> last edges)" for x
    using class_of_sorted_classified[OF assms, of x] by auto
  have b: "(?c x \<noteq> - 1) = (0 < x \<and> x \<le> last edges)" for x
    using class_of_sorted_classified(1)[OF assms, of x] .
  show ?thesis
    by (simp add: group_classes_map filter_map comp_def a b)
qed

theorem group_classes_count_witness:
  "sorted [1, 2 :: real] \<and> [1, 2 :: real] \<noteq> [] \<and> (0 :: real) \<le> hd [1, 2]
   \<and> length (filter (\<lambda>g. g \<noteq> - 1) (group_classes [0, 1, 3] [1, 2])) = 1"
proof -
  have h1: "sorted [1, 2 :: real]" by simp
  have h2: "[1, 2 :: real] \<noteq> []" by simp
  have h3: "(0 :: real) \<le> hd [1, 2]" by simp
  from group_classes_count[OF h1 h2 h3, of "[0, 1, 3]"]
  have "length (filter (\<lambda>g. g \<noteq> - 1) (group_classes [0, 1, 3] [1, 2])) = 1" by simp
  then show ?thesis using h1 h2 h3 by blast
qed

text \<open>
  C7 as stated fails: of the distances \<open>[0, 1]\<close> both are \<open>\<le>\<close> the last edge of
  \<open>[1, 2]\<close>, and only one is given a class.
\<close>

theorem group_classes_count_counterexample:
  "length (filter (\<lambda>g. g \<noteq> - 1) (group_classes [0, 1] [1, 2]))
     \<noteq> length (filter (\<lambda>x. x \<le> last [1, 2]) [0, 1 :: real])"
  by (simp add: group_classes_def group_assign_def)

section \<open>The difference tensor\<close>

subsection \<open>Loops\<close>

lemma for_each_append:
  "for_each (xs @ ys) body s =
     (case for_each xs body s of (Inl e, s') \<Rightarrow> (Inl e, s') | (Inr u, s') \<Rightarrow> for_each ys body s')"
  by (induction xs arbitrary: s) (auto split: prod.splits sum.splits)

lemma for_each_map: "for_each (map g xs) body s = for_each xs (\<lambda>x. body (g x)) s"
  by (induction xs arbitrary: s) (auto split: prod.splits sum.splits)

lemma for_each_nested:
  "for_each xs (\<lambda>x. for_each ys (body x)) s
     = for_each (concat (map (\<lambda>x. map (Pair x) ys) xs)) (\<lambda>(x, y). body x y) s"
  by (induction xs arbitrary: s)
     (auto simp: for_each_append for_each_map split: prod.splits sum.splits)

lemma for_each_guard:
  "for_each zs (\<lambda>z s. if P z then body z s else (Inr (), s)) s = for_each (filter P zs) body s"
  by (induction zs arbitrary: s) (auto split: prod.splits sum.splits)

lemma for_each_cong:
  "(\<And>z s. z \<in> set zs \<Longrightarrow> f z s = g z s) \<Longrightarrow> for_each zs f s = for_each zs g s"
  by (induction zs arbitrary: s) (auto split: prod.splits sum.splits)

lemma filter_upt_greater: "filter (\<lambda>j. i < j) [0..<n] = [Suc i..<n]"
  by (induction n) auto

lemma filter_pairs:
  "filter P (concat (map (\<lambda>x. map (Pair x) ys) xs))
     = concat (map (\<lambda>x. map (Pair x) (filter (\<lambda>y. P (x, y)) ys)) xs)"
  by (induction xs) (auto simp: filter_map comp_def)

lemma upper_pairs_filter:
  "filter (\<lambda>(i, j). i < j) (concat (map (\<lambda>x. map (Pair x) [0..<n]) [0..<n])) = upper_pairs n"
  by (simp add: filter_pairs filter_upt_greater upper_pairs_def)

lemma upper_pairs_product:
  "upper_pairs n = filter (\<lambda>(i, j). i < j) (List.product [0..<n] [0..<n])"
  by (simp add: upper_pairs_filter[symmetric] product_concat_map)

lemma sum_list_descending: "sum_list (map (\<lambda>i. n - Suc i) [0..<n]) = n * (n - 1) div 2"
proof -
  have "sum_list (map (\<lambda>i. n - Suc i) [0..<n]) = (\<Sum>i<n. n - Suc i)"
    by (simp add: sum_list_sum_nth atLeast0LessThan)
  also have "\<dots> = (\<Sum>i<n. i)" by (rule sum.nat_diff_reindex)
  finally have a: "sum_list (map (\<lambda>i. n - Suc i) [0..<n]) = (\<Sum>i<n. i)" .
  have "2 * (\<Sum>i<n. i) = n * (n - 1)"
  proof (induction n)
    case 0
    then show ?case by simp
  next
    case (Suc n)
    then show ?case by (cases n) (simp_all add: algebra_simps)
  qed
  then have "(\<Sum>i<n. i) = n * (n - 1) div 2" by simp
  with a show ?thesis by simp
qed

lemma length_upper_pairs: "length (upper_pairs n) = n * (n - 1) div 2"
  by (simp add: upper_pairs_def length_concat comp_def sum_list_descending)

lemma upper_pairs_less: "(i, j) \<in> set (upper_pairs n) \<Longrightarrow> i < j \<and> j < n"
  by (auto simp: upper_pairs_def)

lemma setitem_ok:
  "a < nrows D \<Longrightarrow> b < ncols D \<Longrightarrow>
   setitem D a b val = Inr (D\<lparr>cells := (cells D)[a := (cells D ! a)[b := val]]\<rparr>)"
  by (simp add: setitem_def)

lemma row_writes:
  assumes "xidx < nrows D" "length (cells D) = nrows D" "length (cells D ! xidx) = ncols D"
    and "tidx + length zs \<le> ncols D"
  shows "for_each zs (\<lambda>(ti, tj) (D, xidx, tidx).
            case setitem D xidx tidx (f (ti, tj)) of
              Inl e \<Rightarrow> (Inl e, (D, xidx, tidx))
            | Inr D' \<Rightarrow> (Inr (), (D', xidx, tidx + 1))) (D, xidx, tidx)
         = (Inr (), (D\<lparr>cells := (cells D)[xidx := take tidx (cells D ! xidx) @ map f zs
                                     @ drop (tidx + length zs) (cells D ! xidx)]\<rparr>,
                     xidx, tidx + length zs))"
  using assms
proof (induction zs arbitrary: D tidx)
  case Nil
  then show ?case by simp
next
  case (Cons z zs)
  obtain ti tj where z: "z = (ti, tj)" by (cases z)
  let ?row = "cells D ! xidx"
  let ?D' = "D\<lparr>cells := (cells D)[xidx := ?row[tidx := f z]]\<rparr>"
  have lt: "tidx < ncols D" using Cons.prems by simp
  have step: "setitem D xidx tidx (f z) = Inr ?D'"
    using Cons.prems lt by (simp add: setitem_ok)
  have p1: "xidx < nrows ?D'" "length (cells ?D') = nrows ?D'"
    "length (cells ?D' ! xidx) = ncols ?D'" "Suc tidx + length zs \<le> ncols ?D'"
    using Cons.prems by simp_all
  have row': "cells ?D' ! xidx = ?row[tidx := f z]" using Cons.prems by simp
  have tk: "take (Suc tidx) (?row[tidx := f z]) = take tidx ?row @ [f z]"
    using lt Cons.prems(3) by (simp add: take_Suc_conv_app_nth)
  have dr: "drop (Suc tidx + length zs) (?row[tidx := f z]) = drop (Suc (tidx + length zs)) ?row"
    by simp
  have xl: "xidx < length (cells D)" using Cons.prems by simp
  show ?case
    using Cons.IH[OF p1] step xl
    by (simp add: z[symmetric] tk dr)
qed

lemma diff_cell_guard:
  "diff_cell L v xi xj ti tj
     = (\<lambda>st. if (case (ti, tj) of (ti, tj) \<Rightarrow> ti < tj)
             then (case (ti, tj) of (ti, tj) \<Rightarrow> \<lambda>(D, xidx, tidx).
                     case setitem D xidx tidx (diff_entry L v (xi, xj) (ti, tj)) of
                       Inl e \<Rightarrow> (Inl e, (D, xidx, tidx))
                     | Inr D' \<Rightarrow> (Inr (), (D', xidx, tidx + 1))) st
             else (Inr (), st))"
  by (auto simp: diff_cell_def diff_entry_def fun_eq_iff)

lemma time_loops:
  "for_each [0..<inner] (\<lambda>ti. for_each [0..<inner] (\<lambda>tj. diff_cell L v xi xj ti tj)) st
     = for_each (upper_pairs inner) (\<lambda>(ti, tj) (D, xidx, tidx).
          case setitem D xidx tidx (diff_entry L v (xi, xj) (ti, tj)) of
            Inl e \<Rightarrow> (Inl e, (D, xidx, tidx))
          | Inr D' \<Rightarrow> (Inr (), (D', xidx, tidx + 1))) st"
proof -
  let ?W = "\<lambda>(ti, tj) (D, xidx, tidx).
          case setitem D xidx tidx (diff_entry L v (xi, xj) (ti, tj)) of
            Inl e \<Rightarrow> (Inl e, (D, xidx, tidx))
          | Inr D' \<Rightarrow> (Inr (), (D', xidx, tidx + 1))"
  have "for_each [0..<inner] (\<lambda>ti. for_each [0..<inner] (\<lambda>tj. diff_cell L v xi xj ti tj)) st
      = for_each (concat (map (\<lambda>x. map (Pair x) [0..<inner]) [0..<inner]))
          (\<lambda>(ti, tj). diff_cell L v xi xj ti tj) st"
    by (rule for_each_nested)
  also have "\<dots> = for_each (concat (map (\<lambda>x. map (Pair x) [0..<inner]) [0..<inner]))
          (\<lambda>z s. if (case z of (ti, tj) \<Rightarrow> ti < tj) then ?W z s else (Inr (), s)) st"
    by (rule for_each_cong) (auto simp: diff_cell_guard)
  also have "\<dots> = for_each (filter (\<lambda>(ti, tj). ti < tj)
          (concat (map (\<lambda>x. map (Pair x) [0..<inner]) [0..<inner]))) ?W st"
    by (rule for_each_guard)
  finally show ?thesis by (simp add: upper_pairs_filter)
qed

lemma diff_pair_row:
  assumes "xi < xj" "xidx < nrows D" "length (cells D) = nrows D"
    and "length (cells D ! xidx) = ncols D" "ncols D = length (upper_pairs inner)"
  shows "diff_pair L v inner xi xj (D, xidx, tidx)
     = (Inr (), (D\<lparr>cells := (cells D)[xidx := map (diff_entry L v (xi, xj)) (upper_pairs inner)]\<rparr>,
                 xidx + 1, length (upper_pairs inner)))"
proof -
  have le: "0 + length (upper_pairs inner) \<le> ncols D" using assms(5) by simp
  show ?thesis
    using assms
    by (simp add: diff_pair_def bindE_def time_loops
        row_writes[OF assms(2,3,4) le, of "diff_entry L v (xi, xj)"])
qed

lemma diff_pair_skip: "\<not> xi < xj \<Longrightarrow> diff_pair L v inner xi xj st = (Inr (), st)"
  by (cases st) (simp add: diff_pair_def)

lemma space_loops:
  "diff_loops L v outer inner st
     = for_each (upper_pairs outer) (\<lambda>(xi, xj). diff_pair L v inner xi xj) st"
proof -
  have "diff_loops L v outer inner st
      = for_each (concat (map (\<lambda>x. map (Pair x) [0..<outer]) [0..<outer]))
          (\<lambda>(xi, xj). diff_pair L v inner xi xj) st"
    unfolding diff_loops_def by (rule for_each_nested)
  also have "\<dots> = for_each (concat (map (\<lambda>x. map (Pair x) [0..<outer]) [0..<outer]))
          (\<lambda>z s. if (case z of (xi, xj) \<Rightarrow> xi < xj)
                 then (case z of (xi, xj) \<Rightarrow> diff_pair L v inner xi xj) s else (Inr (), s)) st"
    by (rule for_each_cong) (auto simp: diff_pair_skip)
  also have "\<dots> = for_each (filter (\<lambda>(xi, xj). xi < xj)
          (concat (map (\<lambda>x. map (Pair x) [0..<outer]) [0..<outer])))
          (\<lambda>(xi, xj). diff_pair L v inner xi xj) st"
    by (rule for_each_guard)
  finally show ?thesis by (simp add: upper_pairs_filter)
qed

lemma rows_written:
  assumes "list_all (\<lambda>(xi, xj). xi < xj) ps" "length (cells D) = nrows D"
    and "list_all (\<lambda>r. length r = ncols D) (cells D)"
    and "ncols D = length (upper_pairs inner)" "xidx + length ps \<le> nrows D"
  shows "\<exists>tidx'. for_each ps (\<lambda>(xi, xj). diff_pair L v inner xi xj) (D, xidx, tidx)
     = (Inr (), (D\<lparr>cells := take xidx (cells D)
                     @ map (\<lambda>p. map (diff_entry L v p) (upper_pairs inner)) ps
                     @ drop (xidx + length ps) (cells D)\<rparr>,
                 xidx + length ps, tidx'))"
  using assms
proof (induction ps arbitrary: D xidx tidx)
  case Nil
  then show ?case by simp
next
  case (Cons p ps)
  obtain xi xj where p: "p = (xi, xj)" by (cases p)
  let ?r = "map (diff_entry L v (xi, xj)) (upper_pairs inner)"
  let ?D' = "D\<lparr>cells := (cells D)[xidx := ?r]\<rparr>"
  have lt: "xi < xj" using Cons.prems(1) p by simp
  have xl: "xidx < nrows D" "xidx < length (cells D)" using Cons.prems by simp_all
  have rl: "length (cells D ! xidx) = ncols D"
    using Cons.prems(3) xl by (simp add: list_all_length)
  have step: "diff_pair L v inner xi xj (D, xidx, tidx)
      = (Inr (), (?D', xidx + 1, length (upper_pairs inner)))"
    by (rule diff_pair_row[OF lt xl(1) Cons.prems(2) rl Cons.prems(4)])
  have p1: "list_all (\<lambda>(xi, xj). xi < xj) ps" "length (cells ?D') = nrows ?D'"
    "ncols ?D' = length (upper_pairs inner)" "Suc xidx + length ps \<le> nrows ?D'"
    using Cons.prems by simp_all
  have p2: "list_all (\<lambda>r. length r = ncols ?D') (cells ?D')"
    using Cons.prems(3,4) by (auto simp: list_all_iff dest!: set_update_subset_insert[THEN subsetD])
  from Cons.IH[OF p1(1,2) p2 p1(3,4), of "length (upper_pairs inner)"]
  obtain tidx' where IH: "for_each ps (\<lambda>(xi, xj). diff_pair L v inner xi xj)
        (?D', Suc xidx, length (upper_pairs inner))
      = (Inr (), (?D'\<lparr>cells := take (Suc xidx) (cells ?D')
                     @ map (\<lambda>p. map (diff_entry L v p) (upper_pairs inner)) ps
                     @ drop (Suc xidx + length ps) (cells ?D')\<rparr>,
                 Suc xidx + length ps, tidx'))"
    by blast
  have tk: "take (Suc xidx) ((cells D)[xidx := ?r]) = take xidx (cells D) @ [?r]"
    using xl by (simp add: take_Suc_conv_app_nth)
  show ?case
    using IH step by (simp add: p tk)
qed

lemma diff_loops_result:
  "\<exists>xidx tidx. diff_loops L v outer inner
       (nan_matrix (length (upper_pairs outer)) (length (upper_pairs inner)), 0, 0)
     = (Inr (), (\<lparr>nrows = length (upper_pairs outer), ncols = length (upper_pairs inner),
                  cells = map (\<lambda>p. map (diff_entry L v p) (upper_pairs inner)) (upper_pairs outer)\<rparr>,
                 xidx, tidx))"
proof -
  let ?D = "nan_matrix (length (upper_pairs outer)) (length (upper_pairs inner))"
  have a: "list_all (\<lambda>(xi, xj). xi < xj) (upper_pairs outer)"
    by (auto simp: list_all_iff dest: upper_pairs_less)
  have b: "length (cells ?D) = nrows ?D" "list_all (\<lambda>r. length r = ncols ?D) (cells ?D)"
    "ncols ?D = length (upper_pairs inner)" "0 + length (upper_pairs outer) \<le> nrows ?D"
    by (simp_all add: nan_matrix_def list_all_iff)
  from rows_written[OF a b, of L v 0]
  show ?thesis by (simp add: space_loops nan_matrix_def) blast
qed

subsection \<open>The tensor of an instance\<close>

lemma calc_xdist_force:
  "u_xdist_func s = Some mx \<Longrightarrow> metric L mx = Some fx \<Longrightarrow>
   calc_xdist L True s
     = (Inr (), s\<lparr>u_xdist := Some (map (\<lambda>(i, j). fx (u_X s ! i) (u_X s ! j))
                                     (upper_pairs (length (u_X s))))\<rparr>)"
  by (simp add: calc_xdist_def pdist_def)

lemma time_points: "(i, j) \<in> set (upper_pairs t) \<Longrightarrow>
   map (\<lambda>k. [real k, 0]) [0..<t] ! i = [real i, 0] \<and> map (\<lambda>k. [real k, 0]) [0..<t] ! j = [real j, 0]"
  by (auto dest!: upper_pairs_less)

lemma calc_tdist_force:
  assumes "u_values s = Some v" "shape v = [n, t]" "u_tdist_func s = Some mt" "metric L mt = Some ft"
  shows "calc_tdist L True s
     = (Inr (), s\<lparr>u_tdist := Some (map (\<lambda>(i, j). ft [real i, 0] [real j, 0]) (upper_pairs t))\<rparr>)"
proof -
  have "map (\<lambda>(i, j). ft (map (\<lambda>k. [real k, 0]) [0..<t] ! i) (map (\<lambda>k. [real k, 0]) [0..<t] ! j))
          (upper_pairs t)
      = map (\<lambda>(i, j). ft [real i, 0] [real j, 0]) (upper_pairs t)"
    by (rule map_cong) (auto dest: time_points)
  then show ?thesis
    using assms by (simp add: calc_tdist_def pdist_def shape_at_def)
qed

lemma xdistance_cached: "u_xdist s = Some d \<Longrightarrow> xdistance L s = (Inr d, s)"
  by (simp add: xdistance_def calc_xdist_def bindE_def)

lemma tdistance_cached: "u_tdist s = Some d \<Longrightarrow> tdistance L s = (Inr d, s)"
  by (simp add: tdistance_def calc_tdist_def bindE_def)

lemma calc_diff_force:
  assumes "u_xdist s = Some dx" "u_tdist s = Some dt"
    and "length dx = length (upper_pairs n)" "length dt = length (upper_pairs t)"
    and "u_values s = Some v" "shape v = [n, t]"
  shows "calc_diff L True s
     = (Inr (), s\<lparr>u_diff := Some \<lparr>nrows = length (upper_pairs n), ncols = length (upper_pairs t),
          cells = map (\<lambda>p. map (diff_entry L v p) (upper_pairs t)) (upper_pairs n)\<rparr>\<rparr>)"
proof -
  from diff_loops_result[of L v n t] obtain xidx tidx where
    "diff_loops L v n t (nan_matrix (length (upper_pairs n)) (length (upper_pairs t)), 0, 0)
     = (Inr (), (\<lparr>nrows = length (upper_pairs n), ncols = length (upper_pairs t),
                  cells = map (\<lambda>p. map (diff_entry L v p) (upper_pairs t)) (upper_pairs n)\<rparr>,
                 xidx, tidx))"
    by blast
  then show ?thesis
    using assms
    by (simp add: calc_diff_def bindE_def xdistance_cached tdistance_cached)
qed

lemma cache_ext_refl: "cache_ext s s"
  by (simp add: cache_ext_def)

lemma cache_ext_trans: "cache_ext s s' \<Longrightarrow> cache_ext s' s'' \<Longrightarrow> cache_ext s s''"
  by (auto simp: cache_ext_def)

lemma bindE_cache_ext:
  assumes "\<And>r s'. m s = (r, s') \<Longrightarrow> cache_ext s s'"
    and "\<And>a s1 r s'. f a s1 = (r, s') \<Longrightarrow> cache_ext s1 s'"
    and "bindE m f s = (r, s')"
  shows "cache_ext s s'"
proof (cases "m s")
  case (Pair r1 s1)
  show ?thesis
  proof (cases r1)
    case (Inl e)
    with Pair assms(3) have "s' = s1" by (simp add: bindE_def)
    with assms(1)[OF Pair] show ?thesis by simp
  next
    case (Inr a)
    with Pair assms(3) have "f a s1 = (r, s')" by (simp add: bindE_def)
    from cache_ext_trans[OF assms(1)[OF Pair] assms(2)[OF this]] show ?thesis .
  qed
qed

lemma calc_xdist_cache_ext: "calc_xdist L False s = (r, s') \<Longrightarrow> cache_ext s s'"
  by (auto simp: calc_xdist_def cache_ext_def split: if_splits option.splits sum.splits)

lemma calc_tdist_cache_ext: "calc_tdist L False s = (r, s') \<Longrightarrow> cache_ext s s'"
  by (auto simp: calc_tdist_def cache_ext_def split: if_splits option.splits sum.splits)

lemma xdistance_cache_ext: "xdistance L s = (r, s') \<Longrightarrow> cache_ext s s'"
  unfolding xdistance_def
  by (erule bindE_cache_ext[rotated 2])
     (auto simp: cache_ext_refl dest: calc_xdist_cache_ext split: option.splits)

lemma tdistance_cache_ext: "tdistance L s = (r, s') \<Longrightarrow> cache_ext s s'"
  unfolding tdistance_def
  by (erule bindE_cache_ext[rotated 2])
     (auto simp: cache_ext_refl dest: calc_tdist_cache_ext split: option.splits)

lemma xbins_cache_ext: "xbins L s = (r, s') \<Longrightarrow> cache_ext s s'"
proof (cases "u_xbins s")
  case None
  assume a: "xbins L s = (r, s')"
  show ?thesis
  proof (rule bindE_cache_ext[OF _ _ a[unfolded xbins_def None option.case]])
    show "\<And>r s'. xdistance L s = (r, s') \<Longrightarrow> cache_ext s s'" by (rule xdistance_cache_ext)
  qed (auto simp: cache_ext_def split: option.splits sum.splits)
next
  case (Some b)
  assume "xbins L s = (r, s')"
  with Some show ?thesis by (simp add: xbins_def cache_ext_refl)
qed

lemma tbins_cache_ext: "tbins L s = (r, s') \<Longrightarrow> cache_ext s s'"
proof (cases "u_tbins s")
  case None
  assume a: "tbins L s = (r, s')"
  show ?thesis
  proof (rule bindE_cache_ext[OF _ _ a[unfolded tbins_def None option.case]])
    show "\<And>r s'. tdistance L s = (r, s') \<Longrightarrow> cache_ext s s'" by (rule tdistance_cache_ext)
  qed (auto simp: cache_ext_def split: option.splits sum.splits)
next
  case (Some b)
  assume "tbins L s = (r, s')"
  with Some show ?thesis by (simp add: tbins_def cache_ext_refl)
qed

lemma set_groups_cache_ext:
  "bindE (xdistance L) (\<lambda>d s1. (Inr (), s1\<lparr>u_xgroups := Some (group_classes d bins)\<rparr>)) s = (r, s')
     \<Longrightarrow> cache_ext s s'"
  "bindE (tdistance L) (\<lambda>d s1. (Inr (), s1\<lparr>u_tgroups := Some (group_classes d bins)\<rparr>)) s = (r, s')
     \<Longrightarrow> cache_ext s s'"
proof -
  assume a: "bindE (xdistance L) (\<lambda>d s1. (Inr (), s1\<lparr>u_xgroups := Some (group_classes d bins)\<rparr>)) s = (r, s')"
  show "cache_ext s s'"
    by (rule bindE_cache_ext[OF _ _ a]) (auto simp: cache_ext_def dest: xdistance_cache_ext)
next
  assume a: "bindE (tdistance L) (\<lambda>d s1. (Inr (), s1\<lparr>u_tgroups := Some (group_classes d bins)\<rparr>)) s = (r, s')"
  show "cache_ext s s'"
    by (rule bindE_cache_ext[OF _ _ a]) (auto simp: cache_ext_def dest: tdistance_cache_ext)
qed

lemma space_groups_cache_ext:
  assumes "bindE (xbins L) (\<lambda>bins. bindE (xdistance L) (\<lambda>d s1.
             (Inr (), s1\<lparr>u_xgroups := Some (group_classes d bins)\<rparr>))) s = (r, s')"
  shows "cache_ext s s'"
  by (rule bindE_cache_ext[OF _ _ assms]) (erule xbins_cache_ext, erule set_groups_cache_ext(1))

lemma time_groups_cache_ext:
  assumes "bindE (tbins L) (\<lambda>bins. bindE (tdistance L) (\<lambda>d s1.
             (Inr (), s1\<lparr>u_tgroups := Some (group_classes d bins)\<rparr>))) s = (r, s')"
  shows "cache_ext s s'"
  by (rule bindE_cache_ext[OF _ _ assms]) (erule tbins_cache_ext, erule set_groups_cache_ext(2))

lemma calc_group_cache_ext: "calc_group L ax force s = (r, s') \<Longrightarrow> cache_ext s s'"
  unfolding calc_group_def
  by (auto simp: cache_ext_refl split: if_splits
      dest: space_groups_cache_ext time_groups_cache_ext)

lemma nth_upper_pairs_map:
  "a < length ps \<Longrightarrow> b < length qs \<Longrightarrow>
   map (\<lambda>p. map (diff_entry L v p) qs) ps ! a ! b
     = subtract L (dtype v) (getitem v (fst (ps ! a)) (fst (qs ! b)))
         (getitem v (snd (ps ! a)) (snd (qs ! b)))"
  by (simp add: diff_entry_def)

text \<open>
  With both distance arrays computed afresh, as the constructor does through
  \<open>preprocessing(force=True)\<close>: for \<open>n\<close> points and a value matrix of shape \<open>(n, t)\<close> the
  difference tensor has \<open>n\<cdot>(n-1)/2\<close> rows and \<open>t\<cdot>(t-1)/2\<close> columns, and its entry \<open>[a, b]\<close> is
  the difference of \<open>value[i, ti]\<close> and \<open>value[j, tj]\<close> for the \<open>a\<close>-th pair \<open>(i, j)\<close> and the
  \<open>b\<close>-th pair \<open>(ti, tj)\<close> of the strict upper triangles in row-major order, the order
  of the two distance arrays.
\<close>

theorem preprocessing_diff_tensor:
  assumes "u_values s = Some v" and "shape v = [length (u_X s), t]" and "1 < t"
    and "u_xdist_func s = Some mx" and "metric L mx = Some fx"
    and "u_tdist_func s = Some mt" and "metric L mt = Some ft"
  shows "\<exists>D. u_diff (snd (preprocessing L True s)) = Some D
    \<and> nrows D = length (u_X s) * (length (u_X s) - 1) div 2
    \<and> ncols D = t * (t - 1) div 2
    \<and> length (cells D) = nrows D
    \<and> (\<forall>a<nrows D. length (cells D ! a) = ncols D)
    \<and> (\<forall>a<nrows D. \<forall>b<ncols D.
          cells D ! a ! b
            = subtract L (dtype v)
                (getitem v (fst (upper_pairs (length (u_X s)) ! a)) (fst (upper_pairs t ! b)))
                (getitem v (snd (upper_pairs (length (u_X s)) ! a)) (snd (upper_pairs t ! b))))
    \<and> u_xdist (snd (preprocessing L True s))
        = Some (map (\<lambda>(i, j). fx (u_X s ! i) (u_X s ! j)) (upper_pairs (length (u_X s))))
    \<and> u_tdist (snd (preprocessing L True s))
        = Some (map (\<lambda>(i, j). ft [real i, 0] [real j, 0]) (upper_pairs t))"
proof -
  let ?n = "length (u_X s)"
  let ?dx = "map (\<lambda>(i, j). fx (u_X s ! i) (u_X s ! j)) (upper_pairs ?n)"
  let ?dt = "map (\<lambda>(i, j). ft [real i, 0] [real j, 0]) (upper_pairs t)"
  let ?D = "\<lparr>nrows = length (upper_pairs ?n), ncols = length (upper_pairs t),
          cells = map (\<lambda>p. map (diff_entry L v p) (upper_pairs t)) (upper_pairs ?n)\<rparr>"
  let ?s1 = "s\<lparr>u_xdist := Some ?dx\<rparr>"
  let ?s2 = "?s1\<lparr>u_tdist := Some ?dt\<rparr>"
  let ?s3 = "?s2\<lparr>u_diff := Some ?D\<rparr>"
  have 1: "calc_xdist L True s = (Inr (), ?s1)"
    by (rule calc_xdist_force[OF assms(4,5)])
  have 2: "calc_tdist L True ?s1 = (Inr (), ?s2)"
    using calc_tdist_force[of ?s1 v ?n t mt L ft] assms by simp
  have 3: "calc_diff L True ?s2 = (Inr (), ?s3)"
    using calc_diff_force[of ?s2 ?dx ?dt ?n t v L] assms by simp
  obtain r4 s4 where 4: "calc_group L ''space'' True ?s3 = (r4, s4)" by (cases "calc_group L ''space'' True ?s3")
  have e4: "cache_ext ?s3 s4" by (rule calc_group_cache_ext[OF 4])
  obtain r5 s5 where 5: "calc_group L ''time'' True s4 = (r5, s5)" by (cases "calc_group L ''time'' True s4")
  have e5: "cache_ext s4 s5" by (rule calc_group_cache_ext[OF 5])
  have fin: "cache_ext ?s3 (snd (preprocessing L True s))"
    using 1 2 3 4 5 e4 cache_ext_trans[OF e4 e5]
    by (cases r4) (simp_all add: preprocessing_def bindE_def)
  have d: "u_diff (snd (preprocessing L True s)) = Some ?D"
    and x: "u_xdist (snd (preprocessing L True s)) = Some ?dx"
    and t: "u_tdist (snd (preprocessing L True s)) = Some ?dt"
    using fin by (simp_all add: cache_ext_def)
  have cell: "\<forall>a<nrows ?D. \<forall>b<ncols ?D. cells ?D ! a ! b
            = subtract L (dtype v)
                (getitem v (fst (upper_pairs ?n ! a)) (fst (upper_pairs t ! b)))
                (getitem v (snd (upper_pairs ?n ! a)) (snd (upper_pairs t ! b)))"
    by (simp add: diff_entry_def)
  have shp: "nrows ?D = ?n * (?n - 1) div 2" "ncols ?D = t * (t - 1) div 2"
    "length (cells ?D) = nrows ?D" "\<forall>a<nrows ?D. length (cells ?D ! a) = ncols ?D"
    by (simp_all add: length_upper_pairs)
  show ?thesis
    using d x t cell shp by blast
qed

section \<open>Evaluating the scenario\<close>

lemma upper_pairs_3: "upper_pairs 3 = [(0, 1), (0, 2), (1, 2)]"
  by code_simp

lemma upper_pairs_3_Suc: "upper_pairs (Suc (Suc (Suc 0))) = [(0, 1), (0, 2), (1, 2)]"
  using upper_pairs_3 by (simp add: numeral_3_eq_3)

lemma euclidean_1d: "euclidean [a] [b] = \<bar>a - b\<bar>"
  by (simp add: euclidean_def)

lemma euclidean_time: "euclidean [a, 0] [b, 0] = \<bar>a - b\<bar>"
  by (simp add: euclidean_def)

lemma lower_literals:
  "lower ''space'' = ''space''" "lower ''time'' = ''time''" "lower ''even'' = ''even''"
  "lower ''matheron'' = ''matheron''" "lower ''uniform'' = ''uniform''"
  by (simp_all add: lower_def lower_char_def)

lemma scenario_bins: "spec_even_width_lags [1, 2, 1] (PyInt 2) None = Inr [1, 2]"
  by (simp add: spec_even_width_lags_def np_max_def numeral_2_eq_2)

lemma scenario_groups: "group_classes [1, 2, 1] [1, 2] = [0, 1, 0]"
  by (simp add: group_classes_def group_assign_def)

lemma scenario_configured:
  "bindE (set_values scenario_values) (\<lambda>_.
      bindE (set_xdist_func (PyStr ''euclidean'')) (\<lambda>_.
      bindE (set_tdist_func (PyStr ''euclidean'')) (\<lambda>_.
      bindE (set_x_lags (PyInt 2)) (\<lambda>_.
      bindE (set_t_lags (PyInt 2)) (\<lambda>_.
      bindE (set_maxlag scenario_lib PyNone) (\<lambda>_.
      bindE (set_estimator scenario_lib (PyStr ''matheron'')) (\<lambda>_.
      bindE (set_bin_func (PyStr ''even'') (PyStr ''space'')) (\<lambda>_.
      bindE (set_bin_func (PyStr ''even'') (PyStr ''time'')) (\<lambda>_. f)))))))))
       (new_instance [[0], [1], [2]] False)
   = f (scenario_instance\<lparr>u_diff := None, u_xdist := None, u_tdist := None,
        u_xgroups := None, u_xbins := None, u_tgroups := None, u_tbins := None\<rparr>)"
  by (simp add: bindE_def set_values_def set_xdist_func_def set_tdist_func_def set_x_lags_def
      set_t_lags_def set_maxlag_def set_estimator_def set_bin_func_def new_instance_def
      scenario_instance_def scenario_values_def builtin_estimator_def lower_literals
      scenario_lib_def)

lemma scenario_diff:
  "map (\<lambda>p. map (diff_entry scenario_lib scenario_values p) (upper_pairs 3)) (upper_pairs 3)
     = [[Num (- 2), Num (- 6), Num (- 5)],
        [Num (- 4), Num (- 5), Num (- 4)],
        [Num (- 3), Num (- 4), Num (- 3)]]"
  by (simp add: upper_pairs_3 diff_entry_def getitem_def scenario_values_def scenario_lib_def
      small_int_subtract_def)

lemma scenario_eval: "scenario = (Inr (), scenario_instance)"
proof -
  let ?s0 = "scenario_instance\<lparr>u_diff := None, u_xdist := None, u_tdist := None,
        u_xgroups := None, u_xbins := None, u_tgroups := None, u_tbins := None\<rparr>"
  let ?s1 = "?s0\<lparr>u_xdist := Some [1, 2, 1]\<rparr>"
  let ?s2 = "?s1\<lparr>u_tdist := Some [1, 2, 1]\<rparr>"
  let ?s3 = "?s2\<lparr>u_diff := Some \<lparr>nrows = 3, ncols = 3,
        cells = [[Num (- 2), Num (- 6), Num (- 5)],
                 [Num (- 4), Num (- 5), Num (- 4)],
                 [Num (- 3), Num (- 4), Num (- 3)]]\<rparr>\<rparr>"
  let ?s4 = "?s3\<lparr>u_xbins := Some [1, 2], u_xgroups := Some [0, 1, 0]\<rparr>"
  let ?s5 = "?s4\<lparr>u_tbins := Some [1, 2], u_tgroups := Some [0, 1, 0]\<rparr>"
  have 1: "calc_xdist scenario_lib True ?s0 = (Inr (), ?s1)"
    using calc_xdist_force[of ?s0 "''euclidean''" scenario_lib euclidean]
    by (simp add: scenario_instance_def scenario_lib_def upper_pairs_3_Suc euclidean_1d)
  have 2: "calc_tdist scenario_lib True ?s1 = (Inr (), ?s2)"
    using calc_tdist_force[of ?s1 scenario_values 3 3 "''euclidean''" scenario_lib euclidean]
    by (simp add: scenario_instance_def scenario_lib_def scenario_values_def upper_pairs_3
        euclidean_time)
  have 3: "calc_diff scenario_lib True ?s2 = (Inr (), ?s3)"
    using calc_diff_force[of ?s2 "[1, 2, 1]" "[1, 2, 1]" 3 3 scenario_values scenario_lib]
    by (simp add: scenario_diff) (simp add: scenario_instance_def scenario_values_def upper_pairs_3)
  have 4: "calc_group scenario_lib ''space'' True ?s3 = (Inr (), ?s4)"
    by (simp add: calc_group_def lower_literals xbins_def bindE_def xdistance_cached
        apply_bin_def x_lags_def maxlag_def scenario_bins scenario_groups
        scenario_instance_def scenario_lib_def)
  have 5: "calc_group scenario_lib ''time'' True ?s4 = (Inr (), ?s5)"
    by (simp add: calc_group_def lower_literals tbins_def bindE_def tdistance_cached
        apply_bin_def t_lags_def scenario_bins scenario_groups
        scenario_instance_def scenario_lib_def)
  have 6: "?s5 = scenario_instance"
    by (simp add: scenario_instance_def)
  have "preprocessing scenario_lib True ?s0 = (Inr (), scenario_instance)"
    using 1 2 3 4 5 6 by (simp add: preprocessing_def bindE_def)
  then show ?thesis
    unfolding scenario_def init_def scenario_configured .
qed

theorem preprocessing_diff_tensor_witness:
  "u_values scenario_instance = Some scenario_values
   \<and> shape scenario_values = [length (u_X scenario_instance), 3] \<and> (1 :: nat) < 3
   \<and> u_xdist_func scenario_instance = Some ''euclidean''
   \<and> metric scenario_lib ''euclidean'' = Some euclidean
   \<and> u_tdist_func scenario_instance = Some ''euclidean''
   \<and> (\<exists>D. u_diff (snd (preprocessing scenario_lib True scenario_instance)) = Some D
          \<and> nrows D = 3 \<and> ncols D = 3 \<and> cells D ! 0 ! 1 = Num (- 6) \<and> cells D ! 2 ! 0 = Num (- 3))"
proof -
  have h1: "u_values scenario_instance = Some scenario_values"
    and h2: "shape scenario_values = [length (u_X scenario_instance), 3]"
    and h3: "(1 :: nat) < 3"
    and h4: "u_xdist_func scenario_instance = Some ''euclidean''"
    and h5: "metric scenario_lib ''euclidean'' = Some euclidean"
    and h6: "u_tdist_func scenario_instance = Some ''euclidean''"
    by (simp_all add: scenario_instance_def scenario_values_def scenario_lib_def)
  from preprocessing_diff_tensor[OF h1 h2 h3 h4 h5 h6 h5]
  obtain D where D: "u_diff (snd (preprocessing scenario_lib True scenario_instance)) = Some D"
    and n: "nrows D = length (u_X scenario_instance) * (length (u_X scenario_instance) - 1) div 2"
    and t: "ncols D = 3 * (3 - 1) div 2"
    and c: "\<forall>a<nrows D. \<forall>b<ncols D. cells D ! a ! b
            = subtract scenario_lib (dtype scenario_values)
                (getitem scenario_values (fst (upper_pairs (length (u_X scenario_instance)) ! a))
                   (fst (upper_pairs 3 ! b)))
                (getitem scenario_values (snd (upper_pairs (length (u_X scenario_instance)) ! a))
                   (snd (upper_pairs 3 ! b)))"
    by blast
  have len: "length (u_X scenario_instance) = 3" by (simp add: scenario_instance_def)
  have n3: "nrows D = 3" and t3: "ncols D = 3" using n t len by simp_all
  have c01: "cells D ! 0 ! 1 = Num (- 6)"
    using c[rule_format, of 0 1] n3 t3
    by (simp add: len upper_pairs_3 getitem_def scenario_values_def scenario_lib_def
        small_int_subtract_def)
  have c20: "cells D ! 2 ! 0 = Num (- 3)"
    using c[rule_format, of 2 0] n3 t3
    by (simp add: len upper_pairs_3 getitem_def scenario_values_def scenario_lib_def
        small_int_subtract_def)
  show ?thesis using h1 h2 h3 h4 h5 h6 D n3 t3 c01 c20 by blast
qed

section \<open>Setters\<close>

text \<open>
  C4: \<open>set_bin_func\<close> with the strategy name \<open>'uniform'\<close> should select the
  uniform-count binning on either axis. In the code the second test compares the
  method object \<open>bin_func.lower\<close>, not its result, with \<open>'uniform'\<close>, so the name falls
  through to the \<open>else\<close> branch and raises, on both axes and for every instance;
  \<open>'even'\<close> is accepted.
\<close>

theorem set_bin_func_uniform_raises:
  "set_bin_func (PyStr ''uniform'') (PyStr ''space'') s = (Inl ValueError, s)
   \<and> set_bin_func (PyStr ''uniform'') (PyStr ''time'') s = (Inl ValueError, s)
   \<and> set_bin_func (PyStr ''even'') (PyStr ''space'') s
       = (Inr (), s\<lparr>u_xbin_func := Some EvenWidthLags, u_xgroups := None, u_xbins := None,
                    cof := PyNone\<rparr>)"
  by (simp add: set_bin_func_def lower_literals)

lemma for_each_raises:
  "body x s = (Inl e, s') \<Longrightarrow> for_each (x # xs) body s = (Inl e, s')"
  by simp

lemma upper_pairs_4: "upper_pairs 4 = [(0, 1), (0, 2), (0, 3), (1, 2), (1, 3), (2, 3)]"
  by code_simp

lemma stale_time_loops:
  "\<exists>D a b. for_each [0..<4] (\<lambda>ti. for_each [0..<4] (\<lambda>tj. diff_cell L v 0 1 ti tj))
       (nan_matrix 3 3, 0, 0)
     = (Inl IndexError, (D, a, b))"
  by (simp add: time_loops upper_pairs_4 setitem_def nan_matrix_def)

lemma stale_diff_loops:
  "\<exists>D a b. diff_loops L v 3 4 (nan_matrix 3 3, 0, 0) = (Inl IndexError, (D, a, b))"
proof -
  from stale_time_loops[of L v] obtain D a b where
    "for_each [0..<4] (\<lambda>ti. for_each [0..<4] (\<lambda>tj. diff_cell L v 0 1 ti tj)) (nan_matrix 3 3, 0, 0)
     = (Inl IndexError, (D, a, b))" by blast
  then have "diff_pair L v 4 0 1 (nan_matrix 3 3, 0, 0) = (Inl IndexError, (D, a, b))"
    by (simp add: diff_pair_def bindE_def)
  then show ?thesis
    by (simp add: space_loops upper_pairs_3)
qed

text \<open>
  C5: a successful \<open>set_values\<close> should drop the cached temporal distances, bins and
  groups. The code only resets \<open>_diff\<close>: after the three-step series of the scenario
  is replaced by a four-step one, the three cached arrays are still those of three
  steps, \<open>tdistance\<close> returns the old array (four steps have six pairs), and reading
  the experimental variogram runs out of the columns of the tensor.
\<close>

theorem set_values_keeps_time_caches:
  "fst (set_values scenario_values_4 scenario_instance) = Inr ()
   \<and> u_tdist (snd (set_values scenario_values_4 scenario_instance)) = Some [1, 2, 1]
   \<and> u_tbins (snd (set_values scenario_values_4 scenario_instance)) = Some [1, 2]
   \<and> u_tgroups (snd (set_values scenario_values_4 scenario_instance)) = Some [0, 1, 0]
   \<and> fst (tdistance scenario_lib (snd (set_values scenario_values_4 scenario_instance)))
       = Inr [1, 2, 1]
   \<and> fst (experimental scenario_lib (snd (set_values scenario_values_4 scenario_instance)))
       = Inl IndexError"
proof -
  let ?s = "scenario_instance\<lparr>u_values := Some scenario_values_4, u_diff := None\<rparr>"
  have sv: "set_values scenario_values_4 scenario_instance = (Inr (), ?s)"
    by (simp add: set_values_def scenario_values_4_def scenario_instance_def)
  have td: "tdistance scenario_lib ?s = (Inr [1, 2, 1], ?s)"
    by (rule tdistance_cached) (simp add: scenario_instance_def)
  have xd: "xdistance scenario_lib ?s = (Inr [1, 2, 1], ?s)"
    by (rule xdistance_cached) (simp add: scenario_instance_def)
  from stale_diff_loops[of scenario_lib scenario_values_4] obtain D a b where
    st: "diff_loops scenario_lib scenario_values_4 3 4 (nan_matrix 3 3, 0, 0) = (Inl IndexError, (D, a, b))"
    by blast
  have sh: "shape scenario_values_4 = [3, 4]" by (simp add: scenario_values_4_def)
  have cd: "calc_diff scenario_lib False ?s = (Inl IndexError, ?s\<lparr>u_diff := Some D\<rparr>)"
    using st xd td sh by (simp add: calc_diff_def bindE_def numeral_3_eq_3)
  have es: "u_estimator ?s = Some (Estimator ''matheron'' spec_matheron)"
    by (simp add: scenario_instance_def)
  have ex: "fst (experimental scenario_lib ?s) = Inl IndexError"
    using cd es
    by (simp add: experimental_def get_experimental_def lag_classes_def bindE_def)
  show ?thesis
    unfolding sv using td ex by (simp add: scenario_instance_def)
qed

subsection \<open>The estimator\<close>

lemma set_estimator_cases:
  "(\<exists>e. set_estimator L a s = (Inr (), s\<lparr>cof := PyNone, cov := PyNone, u_estimator := Some e\<rparr>))
   \<or> set_estimator L a s = (Inl ValueError, s\<lparr>cof := PyNone, cov := PyNone\<rparr>)"
proof (cases a)
  case (PyStr nm)
  show ?thesis
  proof (cases "builtin_estimator L (lower nm)")
    case None
    with PyStr show ?thesis by (simp add: set_estimator_def)
  next
    case (Some e)
    with PyStr have "set_estimator L a s
        = (Inr (), s\<lparr>cof := PyNone, cov := PyNone, u_estimator := Some e\<rparr>)"
      by (simp add: set_estimator_def)
    then show ?thesis by blast
  qed
next
  case (PyFun e)
  then have "set_estimator L a s
      = (Inr (), s\<lparr>cof := PyNone, cov := PyNone, u_estimator := Some e\<rparr>)"
    by (simp add: set_estimator_def)
  then show ?thesis by blast
qed (simp_all add: set_estimator_def)

text \<open>
  C9: \<open>set_estimator\<close> with a valid argument (a recognised name or a callable) leaves
  the two distance arrays, the two bin-edge arrays, the two group arrays and the
  difference tensor as they were; the call changes the estimator and resets the fit
  results \<open>cof\<close> and \<open>cov\<close>, nothing else.
\<close>

theorem set_estimator_frame:
  assumes "fst (set_estimator L a s) = Inr ()"
  shows "u_xdist (snd (set_estimator L a s)) = u_xdist s
    \<and> u_tdist (snd (set_estimator L a s)) = u_tdist s
    \<and> u_xbins (snd (set_estimator L a s)) = u_xbins s
    \<and> u_tbins (snd (set_estimator L a s)) = u_tbins s
    \<and> u_xgroups (snd (set_estimator L a s)) = u_xgroups s
    \<and> u_tgroups (snd (set_estimator L a s)) = u_tgroups s
    \<and> u_diff (snd (set_estimator L a s)) = u_diff s
    \<and> (\<exists>e. snd (set_estimator L a s) = s\<lparr>cof := PyNone, cov := PyNone, u_estimator := Some e\<rparr>)"
proof -
  from set_estimator_cases[of L a s] assms obtain e where
    e: "set_estimator L a s = (Inr (), s\<lparr>cof := PyNone, cov := PyNone, u_estimator := Some e\<rparr>)"
    by auto
  have "\<exists>e. snd (set_estimator L a s) = s\<lparr>cof := PyNone, cov := PyNone, u_estimator := Some e\<rparr>"
    unfolding e snd_conv by (rule exI[of _ e]) (rule refl)
  then show ?thesis unfolding e snd_conv by simp
qed

lemma lower_builtin:
  "lower ''matheron'' = ''matheron''" "lower ''cressie'' = ''cressie''"
  "lower ''dowd'' = ''dowd''" "lower ''genton'' = ''genton''" "lower ''minmax'' = ''minmax''"
  "lower ''percentile'' = ''percentile''" "lower ''entropy'' = ''entropy''"
  by (simp_all add: lower_def lower_char_def)

theorem set_estimator_frame_witness:
  "fst (set_estimator scenario_lib (PyStr ''cressie'') scenario_instance) = Inr ()
   \<and> u_xdist (snd (set_estimator scenario_lib (PyStr ''cressie'') scenario_instance)) = Some [1, 2, 1]
   \<and> u_tgroups (snd (set_estimator scenario_lib (PyStr ''cressie'') scenario_instance)) = Some [0, 1, 0]
   \<and> u_diff (snd (set_estimator scenario_lib (PyStr ''cressie'') scenario_instance))
       = u_diff scenario_instance"
proof -
  have h: "fst (set_estimator scenario_lib (PyStr ''cressie'') scenario_instance) = Inr ()"
    by (simp add: set_estimator_def builtin_estimator_def lower_builtin)
  note T = set_estimator_frame[OF h]
  have a: "u_xdist (snd (set_estimator scenario_lib (PyStr ''cressie'') scenario_instance))
          = u_xdist scenario_instance"
    using T by (rule conjunct1)
  have b: "u_tgroups (snd (set_estimator scenario_lib (PyStr ''cressie'') scenario_instance))
          = u_tgroups scenario_instance"
    using T by blast
  have c: "u_diff (snd (set_estimator scenario_lib (PyStr ''cressie'') scenario_instance))
          = u_diff scenario_instance"
    using T by blast
  have x: "u_xdist scenario_instance = Some [1, 2, 1]"
    and t: "u_tgroups scenario_instance = Some [0, 1, 0]"
    by (simp_all add: scenario_instance_def)
  show ?thesis using h a b c x t by simp
qed

lemma set_estimator_builtin:
  assumes "lower nm = nm" "builtin_estimator L nm = Some e"
  shows "set_estimator L (PyStr nm) s
     = (Inr (), s\<lparr>cof := PyNone, cov := PyNone, u_estimator := Some e\<rparr>)"
  using assms by (simp add: set_estimator_def)

lemma experimental_proceeds:
  assumes "u_estimator s = Some e" "fname e \<noteq> ''entropy''"
  shows "experimental L s
     = bindE (lag_classes L) (\<lambda>cls s1. (Inr (fromiter (map (call e) cls)), s1)) s"
  using assms by (simp add: experimental_def get_experimental_def)

lemma experimental_refuses:
  assumes "u_estimator s = Some e" "fname e = ''entropy''"
  shows "experimental L s = (Inl NotImplementedError, s)"
  using assms by (simp add: experimental_def get_experimental_def)

lemma builtin_literals:
  "builtin_estimator L ''matheron'' = Some (Estimator ''matheron'' (matheron L))"
  "builtin_estimator L ''cressie'' = Some (Estimator ''cressie'' (cressie L))"
  "builtin_estimator L ''dowd'' = Some (Estimator ''dowd'' (dowd L))"
  "builtin_estimator L ''genton'' = Some (Estimator ''genton'' (genton L))"
  "builtin_estimator L ''minmax'' = Some (Estimator ''minmax'' (minmax L))"
  "builtin_estimator L ''percentile'' = Some (Estimator ''percentile'' (percentile L))"
  "builtin_estimator L ''entropy'' = Some (Estimator ''entropy'' (entropy L))"
  by (simp_all add: builtin_estimator_def)

lemma experimental_builtin:
  assumes "lower nm = nm" "builtin_estimator L nm = Some (Estimator nm f)" "nm \<noteq> ''entropy''"
  shows "experimental L (snd (set_estimator L (PyStr nm) s))
     = bindE (lag_classes L) (\<lambda>cls s1. (Inr (fromiter (map f cls)), s1))
         (snd (set_estimator L (PyStr nm) s))"
proof -
  let ?s = "s\<lparr>cof := PyNone, cov := PyNone, u_estimator := Some (Estimator nm f)\<rparr>"
  have e: "u_estimator ?s = Some (Estimator nm f)" by simp
  have n: "fname (Estimator nm f) \<noteq> ''entropy''" using assms(3) by simp
  show ?thesis
    unfolding set_estimator_builtin[OF assms(1,2)] snd_conv
    using experimental_proceeds[OF e n, of L] by simp
qed

lemma experimental_entropy:
  "experimental L (snd (set_estimator L (PyStr ''entropy'') s))
     = (Inl NotImplementedError, snd (set_estimator L (PyStr ''entropy'') s))"
  unfolding set_estimator_builtin[OF lower_builtin(7) builtin_literals(7)] snd_conv
  by (rule experimental_refuses[of _ "Estimator ''entropy'' (entropy L)"]) simp_all

text \<open>
  C10: with the built-in entropy estimator configured, reading the experimental
  variogram raises \<open>NotImplementedError\<close> and leaves the instance as it was, so no lag
  class has been computed; with any of the six other built-in estimators the check
  passes and the read goes on to the lag classes.
\<close>

theorem experimental_entropy_check:
  "experimental L (snd (set_estimator L (PyStr ''entropy'') s))
     = (Inl NotImplementedError, snd (set_estimator L (PyStr ''entropy'') s))
   \<and> experimental L (snd (set_estimator L (PyStr ''matheron'') s))
       = bindE (lag_classes L) (\<lambda>cls s1. (Inr (fromiter (map (matheron L) cls)), s1))
           (snd (set_estimator L (PyStr ''matheron'') s))
   \<and> experimental L (snd (set_estimator L (PyStr ''cressie'') s))
       = bindE (lag_classes L) (\<lambda>cls s1. (Inr (fromiter (map (cressie L) cls)), s1))
           (snd (set_estimator L (PyStr ''cressie'') s))
   \<and> experimental L (snd (set_estimator L (PyStr ''dowd'') s))
       = bindE (lag_classes L) (\<lambda>cls s1. (Inr (fromiter (map (dowd L) cls)), s1))
           (snd (set_estimator L (PyStr ''dowd'') s))
   \<and> experimental L (snd (set_estimator L (PyStr ''genton'') s))
       = bindE (lag_classes L) (\<lambda>cls s1. (Inr (fromiter (map (genton L) cls)), s1))
           (snd (set_estimator L (PyStr ''genton'') s))
   \<and> experimental L (snd (set_estimator L (PyStr ''minmax'') s))
       = bindE (lag_classes L) (\<lambda>cls s1. (Inr (fromiter (map (minmax L) cls)), s1))
           (snd (set_estimator L (PyStr ''minmax'') s))
   \<and> experimental L (snd (set_estimator L (PyStr ''percentile'') s))
       = bindE (lag_classes L) (\<lambda>cls s1. (Inr (fromiter (map (percentile L) cls)), s1))
           (snd (set_estimator L (PyStr ''percentile'') s))"
proof (intro conjI)
  show "experimental L (snd (set_estimator L (PyStr ''entropy'') s))
     = (Inl NotImplementedError, snd (set_estimator L (PyStr ''entropy'') s))"
    by (rule experimental_entropy)
qed (rule experimental_builtin, rule lower_builtin, rule builtin_literals, simp)+

subsection \<open>Setters that raise\<close>

lemma set_values_raises: "isl (fst (set_values vals s)) \<Longrightarrow> snd (set_values vals s) = s"
  by (simp add: set_values_def split: if_splits list.splits)

lemma set_xdist_func_raises: "isl (fst (set_xdist_func a s)) \<Longrightarrow> snd (set_xdist_func a s) = s"
  by (cases a) (simp_all add: set_xdist_func_def)

lemma set_tdist_func_raises: "isl (fst (set_tdist_func a s)) \<Longrightarrow> snd (set_tdist_func a s) = s"
  by (cases a) (simp_all add: set_tdist_func_def)

lemma set_x_lags_raises: "isl (fst (set_x_lags a s)) \<Longrightarrow> snd (set_x_lags a s) = s"
  by (cases a) (simp_all add: set_x_lags_def)

lemma set_bin_func_raises: "isl (fst (set_bin_func a ax s)) \<Longrightarrow> snd (set_bin_func a ax s) = s"
  by (cases a; cases ax) (simp_all add: set_bin_func_def split: if_splits)

lemma set_estimator_raises:
  "isl (fst (set_estimator L a s)) \<Longrightarrow> snd (set_estimator L a s) = s\<lparr>cof := PyNone, cov := PyNone\<rparr>"
  using set_estimator_cases[of L a s] by auto

lemma xdistance_bins:
  "xdistance L s = (r, s') \<Longrightarrow> u_xbins s' = u_xbins s \<and> u_xgroups s' = u_xgroups s"
  by (auto simp: xdistance_def calc_xdist_def bindE_def
      split: if_splits option.splits sum.splits)

lemma bind_xdistance_bins:
  assumes "bindE (xdistance L) f s1 = (r, s')"
    and "\<And>d s2 r s'. f d s2 = (r, s') \<Longrightarrow> u_xbins s' = u_xbins s2 \<and> u_xgroups s' = u_xgroups s2"
  shows "u_xbins s' = u_xbins s1 \<and> u_xgroups s' = u_xgroups s1"
proof (cases "xdistance L s1")
  case (Pair r1 s2)
  note x = xdistance_bins[OF Pair]
  show ?thesis
  proof (cases r1)
    case (Inl e)
    with Pair assms(1) have "s' = s2" by (simp add: bindE_def)
    with x show ?thesis by simp
  next
    case (Inr d)
    with Pair assms(1) have "f d s2 = (r, s')" by (simp add: bindE_def)
    from assms(2)[OF this] x show ?thesis by simp
  qed
qed

lemma set_maxlag_bins:
  "u_xbins (snd (set_maxlag L a s)) = None \<and> u_xgroups (snd (set_maxlag L a s)) = None"
proof -
  let ?s1 = "s\<lparr>cov := PyNone, cof := PyNone, u_xbins := None, u_xgroups := None\<rparr>"
  obtain r s' where rs: "set_maxlag L a s = (r, s')" by (cases "set_maxlag L a s")
  have "u_xbins s' = u_xbins ?s1 \<and> u_xgroups s' = u_xgroups ?s1"
  proof (cases a)
    case PyNone
    with rs show ?thesis by (auto simp: set_maxlag_def)
  next
    case (PyInt k)
    show ?thesis
    proof (cases "k < 1")
      case True
      with rs PyInt have "bindE (xdistance L) (\<lambda>d s2.
              case np_max d of
                Inl e \<Rightarrow> (Inl e, s2)
              | Inr m \<Rightarrow> (Inr (), s2\<lparr>u_maxlag := Some (Num (real_of_int k * m))\<rparr>)) ?s1 = (r, s')"
        by (simp add: set_maxlag_def)
      then show ?thesis
        by (rule bind_xdistance_bins) (auto split: sum.splits)
    next
      case False
      with rs PyInt show ?thesis by (auto simp: set_maxlag_def)
    qed
  next
    case (PyFloat x)
    show ?thesis
    proof (cases "x < 1")
      case True
      with rs PyFloat have "bindE (xdistance L) (\<lambda>d s2.
              case np_max d of
                Inl e \<Rightarrow> (Inl e, s2)
              | Inr m \<Rightarrow> (Inr (), s2\<lparr>u_maxlag := Some (Num (x * m))\<rparr>)) ?s1 = (r, s')"
        by (simp add: set_maxlag_def)
      then show ?thesis
        by (rule bind_xdistance_bins) (auto split: sum.splits)
    next
      case False
      with rs PyFloat show ?thesis by (auto simp: set_maxlag_def)
    qed
  next
    case (PyStr str)
    consider "str = ''median''" | "str \<noteq> ''median''" "str = ''mean''"
      | "str \<noteq> ''median''" "str \<noteq> ''mean''" by blast
    then show ?thesis
    proof cases
      case 1
      with rs PyStr have "bindE (xdistance L)
          (\<lambda>d s2. (Inr (), s2\<lparr>u_maxlag := Some (np_median d)\<rparr>)) ?s1 = (r, s')"
        by (simp add: set_maxlag_def)
      then show ?thesis by (rule bind_xdistance_bins) auto
    next
      case 2
      with rs PyStr have "bindE (xdistance L)
          (\<lambda>d s2. (Inr (), s2\<lparr>u_maxlag := Some (np_mean d)\<rparr>)) ?s1 = (r, s')"
        by (simp add: set_maxlag_def)
      then show ?thesis by (rule bind_xdistance_bins) auto
    next
      case 3
      with rs PyStr show ?thesis by (auto simp: set_maxlag_def)
    qed
  next
    case (PyList x)
    with rs show ?thesis by (auto simp: set_maxlag_def)
  next
    case (PyFun x)
    with rs show ?thesis by (auto simp: set_maxlag_def)
  qed
  then show ?thesis by (simp add: rs)
qed

lemma set_t_lags_defers:
  "lower str \<noteq> ''max'' \<Longrightarrow> t_lags (snd (set_t_lags (PyStr str) s)) = Inl ValueError"
  by (simp add: set_t_lags_def t_lags_def)

lemma set_values_invalid:
  assumes "(dtype vals \<noteq> Float64 \<and> dtype vals \<noteq> Int64) \<or> length (shape vals) \<noteq> 2
      \<or> shape vals ! 0 \<noteq> length (u_X s) \<or> shape vals ! 1 \<le> 1"
  shows "isl (fst (set_values vals s)) \<and> snd (set_values vals s) = s"
proof (cases "shape vals")
  case Nil
  then show ?thesis by (simp add: set_values_def)
next
  case (Cons m ms)
  note c1 = Cons
  show ?thesis
  proof (cases ms)
    case Nil
    with c1 show ?thesis by (simp add: set_values_def)
  next
    case (Cons n ns)
    show ?thesis
    proof (cases ns)
      case Nil
      with c1 Cons assms show ?thesis by (auto simp: set_values_def)
    next
      case (Cons k ks)
      with c1 \<open>ms = n # ns\<close> show ?thesis by (simp add: set_values_def)
    qed
  qed
qed

lemma set_values_valid:
  assumes "dtype vals = Float64 \<or> dtype vals = Int64" "shape vals = [length (u_X s), n]" "1 < n"
  shows "set_values vals s = (Inr (), s\<lparr>u_values := Some vals, u_diff := None\<rparr>)"
  using assms by (auto simp: set_values_def)

lemma set_x_lags_invalid: "(\<forall>k. a \<noteq> PyInt k) \<Longrightarrow> set_x_lags a s = (Inl ValueError, s)"
  by (cases a) (simp_all add: set_x_lags_def)

lemma set_dist_func_invalid:
  "(\<forall>nm. a \<noteq> PyStr nm) \<Longrightarrow> set_xdist_func a s = (Inl ValueError, s)"
  "(\<forall>nm. a \<noteq> PyStr nm) \<Longrightarrow> set_tdist_func a s = (Inl ValueError, s)"
  by (cases a; simp add: set_xdist_func_def set_tdist_func_def)+

lemma set_dist_func_defers:
  assumes "metric L nm = None"
  shows "fst (set_xdist_func (PyStr nm) s) = Inr ()
      \<and> fst (xdistance L (snd (set_xdist_func (PyStr nm) s))) = Inl ValueError"
    and "fst (set_tdist_func (PyStr nm) s) = Inr ()
      \<and> isl (fst (tdistance L (snd (set_tdist_func (PyStr nm) s))))"
  using assms
  by (auto simp: set_xdist_func_def set_tdist_func_def xdistance_def tdistance_def calc_xdist_def
      calc_tdist_def bindE_def pdist_def split: option.splits sum.splits)

lemma set_bin_func_invalid:
  "(case a of PyStr bf \<Rightarrow> lower bf \<noteq> ''even'' \<and> lower bf \<noteq> ''uniform'' | _ \<Rightarrow> True) \<Longrightarrow>
     isl (fst (set_bin_func a ax s)) \<and> snd (set_bin_func a ax s) = s"
  by (cases a) (simp_all add: set_bin_func_def)

lemma set_bin_func_invalid_axis:
  "(case ax of PyStr x \<Rightarrow> lower x \<noteq> ''space'' \<and> lower x \<noteq> ''s'' \<and> lower x \<noteq> ''time''
        \<and> lower x \<noteq> ''t'' | _ \<Rightarrow> True) \<Longrightarrow>
     isl (fst (set_bin_func a ax s)) \<and> snd (set_bin_func a ax s) = s"
  by (cases a; cases ax) (simp_all add: set_bin_func_def)

lemma set_estimator_invalid:
  "(case a of PyStr nm \<Rightarrow> builtin_estimator L (lower nm) = None | PyFun e \<Rightarrow> False | _ \<Rightarrow> True)
     \<Longrightarrow> set_estimator L a s = (Inl ValueError, s\<lparr>cof := PyNone, cov := PyNone\<rparr>)"
  by (cases a) (simp_all add: set_estimator_def)

lemma set_maxlag_invalid:
  "fst (set_maxlag L (PyList xs) s) = Inl TypeError"
  "fst (set_maxlag L (PyFun f) s) = Inl TypeError"
  by (simp_all add: set_maxlag_def)

lemma set_maxlag_ignores:
  "str \<noteq> ''median'' \<Longrightarrow> str \<noteq> ''mean'' \<Longrightarrow>
     fst (set_maxlag L (PyStr str) s) = Inr ()
     \<and> u_maxlag (snd (set_maxlag L (PyStr str) s)) = u_maxlag s"
  by (simp add: set_maxlag_def)

text \<open>
  C6, amended. \<open>set_values\<close>, the \<open>x_lags\<close> setter, \<open>set_bin_func\<close> and \<open>set_estimator\<close> raise
  during the call for every invalid argument: a value matrix of another dtype, of
  another dimension, with a row count other than the number of coordinates or without
  a second time step; a lag count that is not an \<open>int\<close>; a binning strategy that is not
  a string or names neither \<open>'even'\<close> nor \<open>'uniform'\<close>, or an axis that is not one of
  \<open>space\<close>, \<open>s\<close>, \<open>time\<close>, \<open>t\<close>; an estimator that is neither a built-in name nor a
  callable. The first three leave every attribute as it was; \<open>set_estimator\<close> resets
  \<open>cof\<close> and \<open>cov\<close> before it checks, so that it leaves every attribute as it was
  when the two hold \<open>None\<close>, the only value the class gives them. \<open>set_xdist_func\<close> and \<open>set_tdist_func\<close> raise in the
  call, and change nothing, for an argument that is not a string; a string that names
  no metric is stored, and the error comes with the next distance calculation. The
  \<open>t_lags\<close> setter checks nothing: it stores any argument, and a string other than
  \<open>'max'\<close> raises when \<open>t_lags\<close> is read. The \<open>maxlag\<close> setter raises in the call for a
  list or a callable, drops the spatial bins and groups before it looks at its
  argument whatever the outcome, and ignores a string other than \<open>'median'\<close> and
  \<open>'mean'\<close> without raising.
\<close>

theorem setters_validation:
  "((dtype vals \<noteq> Float64 \<and> dtype vals \<noteq> Int64) \<or> length (shape vals) \<noteq> 2
      \<or> shape vals ! 0 \<noteq> length (u_X s) \<or> shape vals ! 1 \<le> 1 \<longrightarrow>
        isl (fst (set_values vals s)) \<and> snd (set_values vals s) = s)
   \<and> ((\<forall>k. lags \<noteq> PyInt k) \<longrightarrow> set_x_lags lags s = (Inl ValueError, s))
   \<and> ((case bf of PyStr b \<Rightarrow> lower b \<noteq> ''even'' \<and> lower b \<noteq> ''uniform'' | _ \<Rightarrow> True) \<longrightarrow>
        isl (fst (set_bin_func bf ax s)) \<and> snd (set_bin_func bf ax s) = s)
   \<and> ((case ax of PyStr x \<Rightarrow> lower x \<noteq> ''space'' \<and> lower x \<noteq> ''s'' \<and> lower x \<noteq> ''time''
          \<and> lower x \<noteq> ''t'' | _ \<Rightarrow> True) \<longrightarrow>
        isl (fst (set_bin_func bf ax s)) \<and> snd (set_bin_func bf ax s) = s)
   \<and> ((case est of PyStr nm \<Rightarrow> builtin_estimator L (lower nm) = None | PyFun e \<Rightarrow> False
          | _ \<Rightarrow> True) \<longrightarrow>
        set_estimator L est s = (Inl ValueError, s\<lparr>cof := PyNone, cov := PyNone\<rparr>))
   \<and> ((case est of PyStr nm \<Rightarrow> builtin_estimator L (lower nm) = None | PyFun e \<Rightarrow> False
          | _ \<Rightarrow> True) \<and> cof s = PyNone \<and> cov s = PyNone \<longrightarrow>
        set_estimator L est s = (Inl ValueError, s))
   \<and> ((\<forall>n. fn \<noteq> PyStr n) \<longrightarrow>
        set_xdist_func fn s = (Inl ValueError, s) \<and> set_tdist_func fn s = (Inl ValueError, s))
   \<and> (metric L nm = None \<longrightarrow>
        fst (set_xdist_func (PyStr nm) s) = Inr ()
        \<and> fst (xdistance L (snd (set_xdist_func (PyStr nm) s))) = Inl ValueError
        \<and> fst (set_tdist_func (PyStr nm) s) = Inr ()
        \<and> isl (fst (tdistance L (snd (set_tdist_func (PyStr nm) s)))))
   \<and> set_t_lags tlags s = (Inr (), s\<lparr>u_t_lags := tlags, u_tbins := None, u_tgroups := None\<rparr>)
   \<and> (lower str \<noteq> ''max'' \<longrightarrow> t_lags (snd (set_t_lags (PyStr str) s)) = Inl ValueError)
   \<and> fst (set_maxlag L (PyList xs) s) = Inl TypeError
   \<and> fst (set_maxlag L (PyFun f) s) = Inl TypeError
   \<and> u_xbins (snd (set_maxlag L ml s)) = None
   \<and> u_xgroups (snd (set_maxlag L ml s)) = None
   \<and> (mstr \<noteq> ''median'' \<and> mstr \<noteq> ''mean'' \<longrightarrow>
        fst (set_maxlag L (PyStr mstr) s) = Inr ()
        \<and> u_maxlag (snd (set_maxlag L (PyStr mstr) s)) = u_maxlag s)"
proof -
  have c1: "(dtype vals \<noteq> Float64 \<and> dtype vals \<noteq> Int64) \<or> length (shape vals) \<noteq> 2
      \<or> shape vals ! 0 \<noteq> length (u_X s) \<or> shape vals ! 1 \<le> 1 \<longrightarrow>
        isl (fst (set_values vals s)) \<and> snd (set_values vals s) = s"
    by (rule impI) (rule set_values_invalid)
  have c2: "(\<forall>k. lags \<noteq> PyInt k) \<longrightarrow> set_x_lags lags s = (Inl ValueError, s)"
    by (rule impI) (rule set_x_lags_invalid)
  have c3: "(case bf of PyStr b \<Rightarrow> lower b \<noteq> ''even'' \<and> lower b \<noteq> ''uniform'' | _ \<Rightarrow> True) \<longrightarrow>
        isl (fst (set_bin_func bf ax s)) \<and> snd (set_bin_func bf ax s) = s"
    by (rule impI) (rule set_bin_func_invalid)
  have c4: "(case ax of PyStr x \<Rightarrow> lower x \<noteq> ''space'' \<and> lower x \<noteq> ''s'' \<and> lower x \<noteq> ''time''
          \<and> lower x \<noteq> ''t'' | _ \<Rightarrow> True) \<longrightarrow>
        isl (fst (set_bin_func bf ax s)) \<and> snd (set_bin_func bf ax s) = s"
    by (rule impI) (rule set_bin_func_invalid_axis)
  have c5: "(case est of PyStr nm \<Rightarrow> builtin_estimator L (lower nm) = None | PyFun e \<Rightarrow> False
          | _ \<Rightarrow> True) \<longrightarrow>
        set_estimator L est s = (Inl ValueError, s\<lparr>cof := PyNone, cov := PyNone\<rparr>)"
    by (rule impI) (rule set_estimator_invalid)
  have c5': "(case est of PyStr nm \<Rightarrow> builtin_estimator L (lower nm) = None | PyFun e \<Rightarrow> False
          | _ \<Rightarrow> True) \<and> cof s = PyNone \<and> cov s = PyNone \<longrightarrow>
        set_estimator L est s = (Inl ValueError, s)"
  proof (intro impI, elim conjE)
    assume a: "case est of PyStr nm \<Rightarrow> builtin_estimator L (lower nm) = None | PyFun e \<Rightarrow> False
          | _ \<Rightarrow> True" and b: "cof s = PyNone" "cov s = PyNone"
    have "s\<lparr>cof := PyNone, cov := PyNone\<rparr> = s" using b by simp
    with set_estimator_invalid[OF a, of s] show "set_estimator L est s = (Inl ValueError, s)"
      by simp
  qed
  have c6: "(\<forall>n. fn \<noteq> PyStr n) \<longrightarrow>
        set_xdist_func fn s = (Inl ValueError, s) \<and> set_tdist_func fn s = (Inl ValueError, s)"
    using set_dist_func_invalid[of fn s] by blast
  have c7: "metric L nm = None \<longrightarrow>
        fst (set_xdist_func (PyStr nm) s) = Inr ()
        \<and> fst (xdistance L (snd (set_xdist_func (PyStr nm) s))) = Inl ValueError
        \<and> fst (set_tdist_func (PyStr nm) s) = Inr ()
        \<and> isl (fst (tdistance L (snd (set_tdist_func (PyStr nm) s))))"
    using set_dist_func_defers[of L nm s] by blast
  have c8: "set_t_lags tlags s = (Inr (), s\<lparr>u_t_lags := tlags, u_tbins := None, u_tgroups := None\<rparr>)"
    by (simp add: set_t_lags_def)
  have c9: "lower str \<noteq> ''max'' \<longrightarrow> t_lags (snd (set_t_lags (PyStr str) s)) = Inl ValueError"
    by (rule impI) (rule set_t_lags_defers)
  have c10: "fst (set_maxlag L (PyList xs) s) = Inl TypeError"
    and c11: "fst (set_maxlag L (PyFun f) s) = Inl TypeError"
    by (rule set_maxlag_invalid)+
  have c12: "u_xbins (snd (set_maxlag L ml s)) = None"
    and c13: "u_xgroups (snd (set_maxlag L ml s)) = None"
    using set_maxlag_bins[of L ml s] by blast+
  have c14: "mstr \<noteq> ''median'' \<and> mstr \<noteq> ''mean'' \<longrightarrow>
        fst (set_maxlag L (PyStr mstr) s) = Inr ()
        \<and> u_maxlag (snd (set_maxlag L (PyStr mstr) s)) = u_maxlag s"
    using set_maxlag_ignores[of mstr L s] by blast
  show ?thesis
    by (intro conjI) (rule c1 c2 c3 c4 c5 c5' c6 c7 c8 c9 c10 c11 c12 c13 c14)+
qed

theorem setters_validation_witness:
  "isl (fst (set_values \<lparr>dtype = Float64, shape = [2, 3], data = [1, 2, 3, 4, 5, 6]\<rparr> scenario_instance))
   \<and> snd (set_values \<lparr>dtype = Float64, shape = [2, 3], data = [1, 2, 3, 4, 5, 6]\<rparr> scenario_instance)
       = scenario_instance
   \<and> set_x_lags (PyStr ''two'') scenario_instance = (Inl ValueError, scenario_instance)
   \<and> isl (fst (set_bin_func (PyStr ''quantile'') (PyStr ''depth'') scenario_instance))
   \<and> snd (set_bin_func (PyStr ''quantile'') (PyStr ''depth'') scenario_instance) = scenario_instance
   \<and> set_estimator scenario_lib (PyStr ''median'') scenario_instance
       = (Inl ValueError, scenario_instance)
   \<and> set_xdist_func (PyInt 3) scenario_instance = (Inl ValueError, scenario_instance)
   \<and> set_tdist_func (PyInt 3) scenario_instance = (Inl ValueError, scenario_instance)
   \<and> metric scenario_lib ''bogus'' = None
   \<and> fst (set_xdist_func (PyStr ''bogus'') scenario_instance) = Inr ()
   \<and> fst (xdistance scenario_lib (snd (set_xdist_func (PyStr ''bogus'') scenario_instance)))
       = Inl ValueError
   \<and> isl (fst (tdistance scenario_lib (snd (set_tdist_func (PyStr ''bogus'') scenario_instance))))
   \<and> lower ''weekly'' \<noteq> ''max''
   \<and> t_lags (snd (set_t_lags (PyStr ''weekly'') scenario_instance)) = Inl ValueError
   \<and> fst (set_maxlag scenario_lib (PyStr ''max'') scenario_instance) = Inr ()
   \<and> u_maxlag (snd (set_maxlag scenario_lib (PyStr ''max'') scenario_instance))
       = u_maxlag scenario_instance"
proof -
  let ?v = "\<lparr>dtype = Float64, shape = [2, 3], data = [1, 2, 3, 4, 5, 6 :: real]\<rparr>"
  have h1: "(dtype ?v \<noteq> Float64 \<and> dtype ?v \<noteq> Int64) \<or> length (shape ?v) \<noteq> 2
      \<or> shape ?v ! 0 \<noteq> length (u_X scenario_instance) \<or> shape ?v ! 1 \<le> 1"
    by (simp add: scenario_instance_def)
  have h2: "\<forall>k. PyStr ''two'' \<noteq> PyInt k" by simp
  have h3: "case PyStr ''quantile'' of PyStr b \<Rightarrow> lower b \<noteq> ''even'' \<and> lower b \<noteq> ''uniform''
      | _ \<Rightarrow> True"
    by (simp add: lower_def lower_char_def)
  have h4: "case PyStr ''depth'' of PyStr x \<Rightarrow> lower x \<noteq> ''space'' \<and> lower x \<noteq> ''s''
      \<and> lower x \<noteq> ''time'' \<and> lower x \<noteq> ''t'' | _ \<Rightarrow> True"
    by (simp add: lower_def lower_char_def)
  have h5: "case PyStr ''median'' of PyStr nm \<Rightarrow> builtin_estimator scenario_lib (lower nm) = None
      | PyFun e \<Rightarrow> False | _ \<Rightarrow> True"
    by (simp add: lower_def lower_char_def builtin_estimator_def)
  have h5': "cof scenario_instance = PyNone \<and> cov scenario_instance = PyNone"
    by (simp add: scenario_instance_def)
  have h6: "\<forall>n. PyInt 3 \<noteq> PyStr n" by simp
  have h7: "metric scenario_lib ''bogus'' = None" by (simp add: scenario_lib_def)
  have h9: "lower ''weekly'' \<noteq> ''max''" by (simp add: lower_def lower_char_def)
  have h14: "''max'' \<noteq> ''median'' \<and> ''max'' \<noteq> ''mean''" by simp
  note T = setters_validation[where vals = ?v and s = scenario_instance
      and lags = "PyStr ''two''" and bf = "PyStr ''quantile''" and ax = "PyStr ''depth''"
      and est = "PyStr ''median''" and L = scenario_lib and fn = "PyInt 3" and nm = "''bogus''"
      and str = "''weekly''" and mstr = "''max''"]
  show ?thesis using T h1 h2 h3 h4 h5 h5' h6 h7 h9 h14 by blast
qed

text \<open>
  C6 as stated fails: the \<open>t_lags\<close> setter accepts the string \<open>'weekly'\<close> and the error
  shows at the next read of \<open>t_lags\<close>; \<open>set_xdist_func\<close> accepts the metric name
  \<open>'bogus'\<close> and the error shows at the next read of \<open>xdistance\<close>; the \<open>maxlag\<close> setter
  accepts the string \<open>'max'\<close> without any error, and it raises on a list but has by then
  dropped the spatial groups of the instance.
\<close>

theorem setters_counterexample:
  "fst (set_t_lags (PyStr ''weekly'') scenario_instance) = Inr ()
   \<and> t_lags (snd (set_t_lags (PyStr ''weekly'') scenario_instance)) = Inl ValueError
   \<and> fst (set_xdist_func (PyStr ''bogus'') scenario_instance) = Inr ()
   \<and> fst (xdistance scenario_lib (snd (set_xdist_func (PyStr ''bogus'') scenario_instance)))
       = Inl ValueError
   \<and> fst (set_maxlag scenario_lib (PyStr ''max'') scenario_instance) = Inr ()
   \<and> fst (set_maxlag scenario_lib (PyList [1]) scenario_instance) = Inl TypeError
   \<and> snd (set_maxlag scenario_lib (PyList [1]) scenario_instance) \<noteq> scenario_instance"
proof -
  have i: "fst (set_maxlag scenario_lib (PyStr ''max'') scenario_instance) = Inr ()"
    by (simp add: set_maxlag_def)
  have a: "fst (set_t_lags (PyStr ''weekly'') scenario_instance) = Inr ()"
    by (simp add: set_t_lags_def)
  have b: "t_lags (snd (set_t_lags (PyStr ''weekly'') scenario_instance)) = Inl ValueError"
    by (simp add: set_t_lags_def t_lags_def lower_def lower_char_def)
  have m: "metric scenario_lib ''bogus'' = None" by (simp add: scenario_lib_def)
  have x: "fst (set_xdist_func (PyStr ''bogus'') scenario_instance) = Inr ()
      \<and> fst (xdistance scenario_lib (snd (set_xdist_func (PyStr ''bogus'') scenario_instance)))
          = Inl ValueError"
    by (rule set_dist_func_defers(1)[OF m])
  have c: "fst (set_maxlag scenario_lib (PyList [1]) scenario_instance) = Inl TypeError"
    by (simp add: set_maxlag_def)
  have "u_xgroups (snd (set_maxlag scenario_lib (PyList [1]) scenario_instance)) = None"
    by (simp add: set_maxlag_def)
  moreover have "u_xgroups scenario_instance = Some [0, 1, 0]"
    by (simp add: scenario_instance_def)
  ultimately have d: "snd (set_maxlag scenario_lib (PyList [1]) scenario_instance) \<noteq> scenario_instance"
    by (metis option.distinct(1))
  show ?thesis using a b x i c d by blast
qed

section \<open>The experimental variogram and its marginals\<close>

lemma mapE_Inr: "(\<And>x. x \<in> set xs \<Longrightarrow> f x = Inr (g x)) \<Longrightarrow> mapE f xs = Inr (map g xs)"
  by (induction xs) auto

lemma where_eq_bound: "a \<in> set (where_eq g x) \<Longrightarrow> a < length g"
  by (simp add: where_eq_def)

lemma index_flatten_groups:
  assumes "length xg = nrows D" "length tg = ncols D"
  shows "index_flatten D (where_eq xg x) (where_eq tg t) = Inr (lag_cell D xg tg x t)"
proof -
  have r: "\<not> list_ex (\<lambda>a. nrows D \<le> a) (where_eq xg x)"
    using assms(1) by (auto simp: list_ex_iff dest: where_eq_bound)
  have c: "\<not> list_ex (\<lambda>b. ncols D \<le> b) (where_eq tg t)"
    using assms(2) by (auto simp: list_ex_iff dest: where_eq_bound)
  show ?thesis by (simp add: index_flatten_def r c lag_cell_def)
qed

lemma preprocessedE:
  assumes "preprocessed s"
  obtains D xg tg where "u_diff s = Some D" "u_xgroups s = Some xg" "u_tgroups s = Some tg"
    "length xg = nrows D" "length tg = ncols D"
  using assms by (auto simp: preprocessed_def split: option.splits)

lemma get_member_cell:
  assumes "u_diff s = Some D" "u_xgroups s = Some xg" "u_tgroups s = Some tg"
    "length xg = nrows D" "length tg = ncols D"
  shows "get_member s x t = Inr (lag_cell D xg tg x t)"
    and "diff_select s (Some xg) (Some tg) x t = Inr (lag_cell D xg tg x t)"
  using assms index_flatten_groups[OF assms(4,5)]
  by (simp_all add: get_member_def diff_select_def np_where_eq_def)

lemma nth_concat_uniform:
  "(\<And>r. r \<in> set rows \<Longrightarrow> length r = m) \<Longrightarrow> i < length rows \<Longrightarrow> j < m \<Longrightarrow>
   concat rows ! (i * m + j) = rows ! i ! j"
proof (induction rows arbitrary: i)
  case Nil
  then show ?case by simp
next
  case (Cons r rows)
  have lr: "length r = m" using Cons.prems(1) by simp
  show ?case
  proof (cases i)
    case 0
    then show ?thesis using lr Cons.prems(3) by (simp add: nth_append)
  next
    case (Suc k)
    have "concat rows ! (k * m + j) = rows ! k ! j"
      using Cons.IH[of k] Cons.prems Suc by simp
    then show ?thesis using lr Suc by (simp add: nth_append)
  qed
qed

lemma length_concat_uniform:
  "(\<And>r. r \<in> set rows \<Longrightarrow> length r = m) \<Longrightarrow> length (concat rows) = length rows * m"
  by (induction rows) auto

lemma lag_groups_cached:
  "u_xgroups s = Some xg \<Longrightarrow> lag_groups L (PyStr ''space'') s = (Inr (Some xg), s)"
  "u_tgroups s = Some tg \<Longrightarrow> lag_groups L (PyStr ''time'') s = (Inr (Some tg), s)"
  by (simp_all add: lag_groups_def lower_literals)

lemma lag_classes_cached:
  assumes "u_diff s = Some D" "u_xgroups s = Some xg" "u_tgroups s = Some tg"
    "length xg = nrows D" "length tg = ncols D"
    and "x_lags s = PyInt nx" "t_lags s = Inr (PyInt nt)"
  shows "lag_classes L s
     = (Inr (concat (map (\<lambda>x. map (\<lambda>t. lag_cell D xg tg (int x) (int t)) [0..<nat nt])
                       [0..<nat nx])), s)"
proof -
  have inner: "mapE (\<lambda>t. diff_select s (Some xg) (Some tg) (int x) (int t)) [0..<nat nt]
      = Inr (map (\<lambda>t. lag_cell D xg tg (int x) (int t)) [0..<nat nt])" for x
    by (rule mapE_Inr) (rule get_member_cell(2)[OF assms(1-5)])
  have outer: "mapE (\<lambda>x. case t_lags s of
                   Inl e \<Rightarrow> Inl e
                 | Inr lags \<Rightarrow>
                     (case py_range lags of
                        Inl e \<Rightarrow> Inl e
                      | Inr ts \<Rightarrow> mapE (\<lambda>t. diff_select s (Some xg) (Some tg) (int x) (int t)) ts))
         [0..<nat nx]
      = Inr (map (\<lambda>x. map (\<lambda>t. lag_cell D xg tg (int x) (int t)) [0..<nat nt]) [0..<nat nx])"
    by (rule mapE_Inr) (simp add: assms(7) py_range_def inner)
  show ?thesis
    using assms(1,6)
    by (simp add: lag_classes_def bindE_def lag_groups_cached(1)[OF assms(2)]
        lag_groups_cached(2)[OF assms(3)] py_range_def outer)
qed

lemma get_marginal_cached:
  assumes "u_diff s = Some D" "u_xgroups s = Some xg" "u_tgroups s = Some tg"
    "length xg = nrows D" "length tg = ncols D"
    and "x_lags s = PyInt nx" "t_lags s = Inr (PyInt nt)" "u_estimator s = Some e"
  shows "get_marginal (PyStr ''space'') lag s
     = Inr (fromiter (map (\<lambda>i. call e (lag_cell D xg tg (int i) lag)) [0..<nat nx]))"
    and "get_marginal (PyStr ''time'') lag s
     = Inr (fromiter (map (\<lambda>j. call e (lag_cell D xg tg lag (int j))) [0..<nat nt]))"
proof -
  have sp: "mapE (\<lambda>i. call_estimator s (get_member s (int i) lag)) [0..<nat nx]
      = Inr (map (\<lambda>i. call e (lag_cell D xg tg (int i) lag)) [0..<nat nx])"
    by (rule mapE_Inr) (simp add: call_estimator_def get_member_cell(1)[OF assms(1-5)] assms(8))
  have tm: "mapE (\<lambda>j. call_estimator s (get_member s lag (int j))) [0..<nat nt]
      = Inr (map (\<lambda>j. call e (lag_cell D xg tg lag (int j))) [0..<nat nt])"
    by (rule mapE_Inr) (simp add: call_estimator_def get_member_cell(1)[OF assms(1-5)] assms(8))
  show "get_marginal (PyStr ''space'') lag s
     = Inr (fromiter (map (\<lambda>i. call e (lag_cell D xg tg (int i) lag)) [0..<nat nx]))"
    by (simp add: get_marginal_def lower_literals assms(6) py_range_def sp)
  show "get_marginal (PyStr ''time'') lag s
     = Inr (fromiter (map (\<lambda>j. call e (lag_cell D xg tg lag (int j))) [0..<nat nt]))"
    by (simp add: get_marginal_def lower_literals assms(7) py_range_def tm)
qed

lemma grid_length:
  "length (concat (map (\<lambda>x. map (\<lambda>t. c x t) [0..<m]) xs)) = length xs * m"
  by (induction xs) auto

lemma grid_nth:
  assumes "i < n" "j < m"
  shows "concat (map (\<lambda>x. map (\<lambda>t. c x t) [0..<m]) [0..<n]) ! (i * m + j) = c i j"
    and "i * m + j < length (concat (map (\<lambda>x. map (\<lambda>t. c x t) [0..<m]) [0..<n]))"
proof -
  let ?rows = "map (\<lambda>x. map (\<lambda>t. c x t) [0..<m]) [0..<n]"
  have u: "\<And>r. r \<in> set ?rows \<Longrightarrow> length r = m" by auto
  have "concat ?rows ! (i * m + j) = ?rows ! i ! j"
    by (rule nth_concat_uniform[OF u]) (use assms in simp_all)
  then show "concat ?rows ! (i * m + j) = c i j" using assms by simp
  have l: "length (concat ?rows) = n * m"
    using grid_length[of c m "[0..<n]"] by simp
  have "i * m + j < Suc i * m" using assms(2) by simp
  also have "\<dots> \<le> n * m" using assms(1) by (intro mult_le_mono1) simp
  finally show "i * m + j < length (concat ?rows)" using l by simp
qed

text \<open>
  C8: on a pre-processed instance with integer lag counts, \<open>get_marginal('space', 0)[i]\<close>
  is the estimator of the lag class \<open>(i, 0)\<close>, the entry \<open>i \<cdot> t_lags + 0\<close> of the
  experimental variogram, and \<open>get_marginal('time', 0)[j]\<close> is that of the lag class
  \<open>(0, j)\<close>, its entry \<open>0 \<cdot> t_lags + j\<close>. The experimental variogram is the estimator
  mapped over \<open>lag_classes()\<close>, which is what the property returns unless the
  estimator is the entropy (C10).
\<close>

theorem marginal_is_surface_slice:
  assumes "preprocessed s" and "u_estimator s = Some e"
    and "x_lags s = PyInt nx" and "t_lags s = Inr (PyInt nt)"
  shows "\<exists>cls mx mt. lag_classes L s = (Inr cls, s)
    \<and> length cls = nat nx * nat nt
    \<and> (fname e \<noteq> ''entropy'' \<longrightarrow> experimental L s = (Inr (fromiter (map (call e) cls)), s))
    \<and> get_marginal (PyStr ''space'') 0 s = Inr mx \<and> shape mx = [nat nx]
    \<and> get_marginal (PyStr ''time'') 0 s = Inr mt \<and> shape mt = [nat nt]
    \<and> (\<forall>i<nat nx. 0 < nt \<longrightarrow> data mx ! i = map (call e) cls ! (i * nat nt + 0))
    \<and> (\<forall>j<nat nt. 0 < nx \<longrightarrow> data mt ! j = map (call e) cls ! (0 * nat nt + j))"
proof -
  from assms(1) obtain D xg tg where
    c: "u_diff s = Some D" "u_xgroups s = Some xg" "u_tgroups s = Some tg"
      "length xg = nrows D" "length tg = ncols D"
    by (rule preprocessedE)
  let ?c = "\<lambda>x t. lag_cell D xg tg (int x) (int t)"
  let ?cls = "concat (map (\<lambda>x. map (\<lambda>t. ?c x t) [0..<nat nt]) [0..<nat nx])"
  let ?mx = "fromiter (map (\<lambda>i. call e (lag_cell D xg tg (int i) 0)) [0..<nat nx])"
  let ?mt = "fromiter (map (\<lambda>j. call e (lag_cell D xg tg 0 (int j))) [0..<nat nt])"
  have lc: "lag_classes L s = (Inr ?cls, s)"
    by (rule lag_classes_cached[OF c assms(3,4)])
  have len: "length ?cls = nat nx * nat nt"
    using grid_length[of ?c "nat nt" "[0..<nat nx]"] by simp
  have ex: "fname e \<noteq> ''entropy'' \<longrightarrow> experimental L s = (Inr (fromiter (map (call e) ?cls)), s)"
    using assms(2) lc by (simp add: experimental_def get_experimental_def bindE_def)
  have gx: "get_marginal (PyStr ''space'') 0 s = Inr ?mx"
    by (rule get_marginal_cached(1)[OF c assms(3,4,2)])
  have gt: "get_marginal (PyStr ''time'') 0 s = Inr ?mt"
    by (rule get_marginal_cached(2)[OF c assms(3,4,2)])
  have sx: "shape ?mx = [nat nx]" and st: "shape ?mt = [nat nt]"
    by (simp_all add: fromiter_def)
  have px: "\<forall>i<nat nx. 0 < nt \<longrightarrow> data ?mx ! i = map (call e) ?cls ! (i * nat nt + 0)"
  proof (intro allI impI)
    fix i assume i: "i < nat nx" and "0 < nt"
    then have j: "0 < nat nt" by simp
    from grid_nth[OF i j, of ?c]
    show "data ?mx ! i = map (call e) ?cls ! (i * nat nt + 0)"
      using i by (simp add: fromiter_def)
  qed
  have pt: "\<forall>j<nat nt. 0 < nx \<longrightarrow> data ?mt ! j = map (call e) ?cls ! (0 * nat nt + j)"
  proof (intro allI impI)
    fix j assume j: "j < nat nt" and "0 < nx"
    then have i: "0 < nat nx" by simp
    from grid_nth[OF i j, of ?c]
    show "data ?mt ! j = map (call e) ?cls ! (0 * nat nt + j)"
      using j by (simp add: fromiter_def)
  qed
  show ?thesis
    using lc len ex gx gt sx st px pt by blast
qed

lemma scenario_hyps:
  "preprocessed scenario_instance"
  "u_estimator scenario_instance = Some (Estimator ''matheron'' spec_matheron)"
  "x_lags scenario_instance = PyInt 2"
  "t_lags scenario_instance = Inr (PyInt 2)"
  by (simp_all add: preprocessed_def x_lags_def t_lags_def scenario_instance_def)

theorem marginal_is_surface_slice_witness:
  "preprocessed scenario_instance
   \<and> u_estimator scenario_instance = Some (Estimator ''matheron'' spec_matheron)
   \<and> x_lags scenario_instance = PyInt 2 \<and> t_lags scenario_instance = Inr (PyInt 2)
   \<and> (\<exists>cls mx mt. experimental scenario_lib scenario_instance
            = (Inr (fromiter (map spec_matheron cls)), scenario_instance)
        \<and> length cls = 4
        \<and> get_marginal (PyStr ''space'') 0 scenario_instance = Inr mx
        \<and> get_marginal (PyStr ''time'') 0 scenario_instance = Inr mt
        \<and> data mx ! 0 = map spec_matheron cls ! 0 \<and> data mx ! 1 = map spec_matheron cls ! 2
        \<and> data mt ! 0 = map spec_matheron cls ! 0 \<and> data mt ! 1 = map spec_matheron cls ! 1)"
proof -
  from marginal_is_surface_slice[OF scenario_hyps, of scenario_lib]
  obtain cls mx mt where
    len: "length cls = nat 2 * nat 2"
    and ex: "fname (Estimator ''matheron'' spec_matheron) \<noteq> ''entropy'' \<longrightarrow>
       experimental scenario_lib scenario_instance
         = (Inr (fromiter (map (call (Estimator ''matheron'' spec_matheron)) cls)), scenario_instance)"
    and gx: "get_marginal (PyStr ''space'') 0 scenario_instance = Inr mx"
    and gt: "get_marginal (PyStr ''time'') 0 scenario_instance = Inr mt"
    and px: "\<forall>i<nat 2. (0 :: int) < 2 \<longrightarrow>
       data mx ! i = map (call (Estimator ''matheron'' spec_matheron)) cls ! (i * nat 2 + 0)"
    and pt: "\<forall>j<nat 2. (0 :: int) < 2 \<longrightarrow>
       data mt ! j = map (call (Estimator ''matheron'' spec_matheron)) cls ! (0 * nat 2 + j)"
    by blast
  have e: "experimental scenario_lib scenario_instance
      = (Inr (fromiter (map spec_matheron cls)), scenario_instance)"
    using ex by simp
  have l: "length cls = 4" using len by simp
  have x0: "data mx ! 0 = map spec_matheron cls ! 0" using px[rule_format, of 0] by simp
  have x1: "data mx ! 1 = map spec_matheron cls ! 2" using px[rule_format, of 1] by simp
  have t0: "data mt ! 0 = map spec_matheron cls ! 0" using pt[rule_format, of 0] by simp
  have t1: "data mt ! 1 = map spec_matheron cls ! 1" using pt[rule_format, of 1] by simp
  show ?thesis
    using scenario_hyps e l gx gt x0 x1 t0 t1 by blast
qed

lemma scenario_where:
  "where_eq [0, 1, 0] 0 = [0, 2]" "where_eq [0, 1, 0] 1 = [1]"
  by (simp_all add: where_eq_def numeral_3_eq_3)

lemma scenario_lag_classes:
  "lag_classes scenario_lib scenario_instance
     = (Inr [[Num (- 2), Num (- 5), Num (- 3), Num (- 3)], [Num (- 6), Num (- 4)],
             [Num (- 4), Num (- 4)], [Num (- 5)]], scenario_instance)"
proof -
  let ?D = "\<lparr>nrows = 3, ncols = 3,
        cells = [[Num (- 2), Num (- 6), Num (- 5)],
                 [Num (- 4), Num (- 5), Num (- 4)],
                 [Num (- 3), Num (- 4), Num (- 3)]]\<rparr>"
  have c: "u_diff scenario_instance = Some ?D" "u_xgroups scenario_instance = Some [0, 1, 0]"
    "u_tgroups scenario_instance = Some [0, 1, 0]" "length [0, 1, 0 :: int] = nrows ?D"
    "length [0, 1, 0 :: int] = ncols ?D"
    by (simp_all add: scenario_instance_def)
  have cells: "lag_cell ?D [0, 1, 0] [0, 1, 0] 0 0 = [Num (- 2), Num (- 5), Num (- 3), Num (- 3)]"
    "lag_cell ?D [0, 1, 0] [0, 1, 0] 0 1 = [Num (- 6), Num (- 4)]"
    "lag_cell ?D [0, 1, 0] [0, 1, 0] 1 0 = [Num (- 4), Num (- 4)]"
    "lag_cell ?D [0, 1, 0] [0, 1, 0] 1 1 = [Num (- 5)]"
    by (simp_all add: lag_cell_def scenario_where)
  have r: "[0..<nat 2] = [0, 1]" by (simp add: numeral_2_eq_2)
  show ?thesis
    unfolding lag_classes_cached[OF c scenario_hyps(3,4)] r
    by (simp add: cells)
qed

text \<open>
  C3: reading the experimental variogram should give a two-dimensional array of shape
  \<open>(x_lags, t_lags)\<close>. On the scenario, with two lag classes on each axis, the code
  returns the one-dimensional array of shape \<open>(4)\<close> that \<open>np.fromiter\<close> builds from the
  generator: the four cells \<open>(0,0), (0,1), (1,0), (1,1)\<close> in that order, each the Matheron
  estimate of its lag class, and no row structure.
\<close>

theorem experimental_is_flat:
  "experimental scenario_lib scenario_instance
     = (Inr \<lparr>dtype = Float64, shape = [4],
              data = [Num (47 / 8), Num 13, Num 8, Num (25 / 2)]\<rparr>, scenario_instance)"
proof -
  have m: "map spec_matheron [[Num (- 2), Num (- 5), Num (- 3), Num (- 3)], [Num (- 6), Num (- 4)],
             [Num (- 4), Num (- 4)], [Num (- 5)]]
      = [Num (47 / 8), Num 13, Num 8, Num (25 / 2)]"
    by (simp add: spec_matheron_def)
  show ?thesis
    using scenario_hyps(2) m
    by (simp add: experimental_def get_experimental_def bindE_def scenario_lag_classes fromiter_def)
qed

section \<open>The difference tensor after new values\<close>

lemma upper_pairs_2: "upper_pairs 2 = [(0, 1)]"
  by code_simp

lemma stale_pair_row:
  "xi < xj \<Longrightarrow> a < 3 \<Longrightarrow> length cs = 3 \<Longrightarrow> cs ! a = [NaN, NaN, NaN] \<Longrightarrow>
   diff_pair L v 2 xi xj (\<lparr>nrows = 3, ncols = 3, cells = cs\<rparr>, a, b)
     = (Inr (), (\<lparr>nrows = 3, ncols = 3,
                  cells = cs[a := [diff_entry L v (xi, xj) (0, 1), NaN, NaN]]\<rparr>, a + 1, 1))"
  by (simp add: diff_pair_def bindE_def time_loops upper_pairs_2 setitem_def)

lemma nan_matrix_3:
  "nan_matrix 3 3 = \<lparr>nrows = 3, ncols = 3,
      cells = [[NaN, NaN, NaN], [NaN, NaN, NaN], [NaN, NaN, NaN]]\<rparr>"
  by (simp add: nan_matrix_def numeral_3_eq_3)

lemma stale_columns_loops:
  "diff_loops L v 3 2 (nan_matrix 3 3, 0, 0)
     = (Inr (), (\<lparr>nrows = 3, ncols = 3,
          cells = [[diff_entry L v (0, 1) (0, 1), NaN, NaN],
                   [diff_entry L v (0, 2) (0, 1), NaN, NaN],
                   [diff_entry L v (1, 2) (0, 1), NaN, NaN]]\<rparr>, 3, 1))"
  by (simp add: space_loops upper_pairs_3 nan_matrix_3 stale_pair_row)

text \<open>
  C1: for a valid value matrix of shape \<open>(n, t)\<close> the difference tensor should have
  \<open>t\<cdot>(t-1)/2\<close> columns, each entry a difference of two values. \<open>_calc_diff\<close> takes the
  number of columns from \<open>tdistance\<close>, which \<open>set_values\<close> leaves cached (C5): after the
  three-step series of the scenario is replaced by a valid two-step one, the tensor
  that the next read computes still has the three columns of three steps, where two
  steps have one pair, and two of them are never written and stay \<open>NaN\<close>.
\<close>

theorem calc_diff_stale_columns:
  "fst (set_values scenario_values_2 scenario_instance) = Inr ()
   \<and> fst (calc_diff scenario_lib False (snd (set_values scenario_values_2 scenario_instance)))
       = Inr ()
   \<and> u_diff (snd (calc_diff scenario_lib False
         (snd (set_values scenario_values_2 scenario_instance))))
       = Some \<lparr>nrows = 3, ncols = 3,
            cells = [[Num (- 2), NaN, NaN], [Num (- 4), NaN, NaN], [Num (- 3), NaN, NaN]]\<rparr>"
proof -
  let ?s = "scenario_instance\<lparr>u_values := Some scenario_values_2, u_diff := None\<rparr>"
  let ?D = "\<lparr>nrows = 3, ncols = 3,
            cells = [[Num (- 2), NaN, NaN], [Num (- 4), NaN, NaN], [Num (- 3), NaN, NaN]]\<rparr>"
  have sv: "set_values scenario_values_2 scenario_instance = (Inr (), ?s)"
    by (simp add: set_values_def scenario_values_2_def scenario_instance_def)
  have td: "tdistance scenario_lib ?s = (Inr [1, 2, 1], ?s)"
    by (rule tdistance_cached) (simp add: scenario_instance_def)
  have xd: "xdistance scenario_lib ?s = (Inr [1, 2, 1], ?s)"
    by (rule xdistance_cached) (simp add: scenario_instance_def)
  have e: "diff_entry scenario_lib scenario_values_2 (0, 1) (0, 1) = Num (- 2)"
    "diff_entry scenario_lib scenario_values_2 (0, 2) (0, 1) = Num (- 4)"
    "diff_entry scenario_lib scenario_values_2 (1, 2) (0, 1) = Num (- 3)"
    by (simp_all add: diff_entry_def getitem_def scenario_values_2_def scenario_lib_def
        small_int_subtract_def)
  have lp: "diff_loops scenario_lib scenario_values_2 3 2 (nan_matrix 3 3, 0, 0)
      = (Inr (), (?D, 3, 1))"
    using e by (simp add: stale_columns_loops)
  have sh: "shape scenario_values_2 = [3, 2]" by (simp add: scenario_values_2_def)
  have cd: "calc_diff scenario_lib False ?s = (Inr (), ?s\<lparr>u_diff := Some ?D\<rparr>)"
    using lp xd td sh by (simp add: calc_diff_def bindE_def numeral_3_eq_3)
  show ?thesis
    using sv cd by simp
qed

end
